theory Spec2Isabelle
  imports Complex_Main "HOL-Library.Multiset"
begin

section \<open>CrystalValue: the LTV pipeline orchestrator (crystalvalue.py)\<close>

text \<open>
  The module holds one dataclass, \<open>CrystalValue\<close>, whose methods sequence calls to
  collaborators: the modules \<open>synthetic_data\<close>, \<open>feature_engineering\<close>, \<open>automl\<close>
  and \<open>model_evaluation\<close>, which talk to the warehouse and to the managed AutoML
  service. The embedding keeps the dataclass as a record, passes it explicitly through
  every method, and takes the collaborators as a record of functions over an abstract
  state of the outside world. A Python exception is a value of a sum type; the object
  as mutated up to the \<open>raise\<close> is returned beside it, as Python leaves it.
\<close>

subsection \<open>Values exchanged with the collaborators\<close>

text \<open>\<open>bigquery.Client\<close>: the orchestrator reads its \<open>project\<close> attribute only.\<close>

record bigquery_client =
  project :: string

text \<open>A \<open>pd.DataFrame\<close> is opaque to the orchestrator: it is handed from a collaborator to the caller.\<close>

type_synonym dataframe = "string list list"

text \<open>
  \<open>Mapping[str, List[str]]\<close>: feature type to the columns of that type, in the
  dictionary's iteration order. The empty mapping is the empty list.
\<close>

type_synonym features_types = "(string \<times> string list) list"

text \<open>
  \<open>aiplatform.Model\<close>: the orchestrator reads \<open>model.name\<close> and
  \<open>model.gca_resource.deployed_models[0].endpoint\<close>.
\<close>

record deployed_model_ref =
  endpoint :: string

record gca_model =
  deployed_models :: "deployed_model_ref list"

record aiplatform_model =
  name :: string
  gca_resource :: gca_model

text \<open>The Vertex AI dataset and the batch prediction job are passed on untouched.\<close>

type_synonym aiplatform_dataset = string
type_synonym batch_prediction_job = string

subsection \<open>Collections of column names\<close>

text \<open>
  \<open>ignore_columns\<close> is declared \<open>Optional[Collection[str]]\<close> (line 127). The kinds
  of collection kept here are the list, the tuple, the set and the string (a collection of
  its one-character strings); they differ in what \<open>list + collection\<close> does at
  line 233.
\<close>

datatype collection =
    ListOf "string list"
  | TupleOf "string list"
  | SetOf "string set"
  | StrOf string

text \<open>\<open>not c\<close> for a collection: it is falsy when it is empty.\<close>

fun empty_collection :: "collection \<Rightarrow> bool" where
  "empty_collection (ListOf xs) = (xs = [])"
| "empty_collection (TupleOf xs) = (xs = [])"
| "empty_collection (SetOf X) = (X = {})"
| "empty_collection (StrOf s) = (s = [])"

text \<open>The name \<open>type(c).__name__\<close> of the collection's type.\<close>

fun type_name :: "collection \<Rightarrow> string" where
  "type_name (ListOf xs) = ''list''"
| "type_name (TupleOf xs) = ''tuple''"
| "type_name (SetOf X) = ''set''"
| "type_name (StrOf s) = ''str''"

text \<open>
  \<open>xs + c\<close> for a list \<open>xs\<close>: the concatenation when \<open>c\<close> is a list, and otherwise a
  \<open>TypeError\<close> whose message is on the left. Python's message puts the type name in
  double quotes, which the message here leaves out.
\<close>

definition list_add :: "string list \<Rightarrow> collection \<Rightarrow> string + string list" where
  "list_add xs c =
     (case c of
        ListOf ys \<Rightarrow> Inr (xs @ ys)
      | other \<Rightarrow> Inl (''can only concatenate list (not '' @ type_name c @ '') to list''))"

subsection \<open>The dataclass\<close>

record CrystalValue =
  bigquery_client :: bigquery_client
  dataset_id :: string
  training_table_name :: string
  predict_table_name :: string
  customer_id_column :: string
  date_column :: string
  value_column :: string
  features_types :: "features_types option"
  ignore_columns :: "collection option"
  location :: string
  days_lookback :: int
  days_lookahead :: int
  model_id :: "string option"
  endpoint_id :: "string option"

text \<open>
  The dataclass constructor with the field defaults of lines 119 to 132;
  \<open>bigquery_client\<close> and \<open>dataset_id\<close> have none.
\<close>

definition new_CrystalValue :: "bigquery_client \<Rightarrow> string \<Rightarrow> CrystalValue" where
  "new_CrystalValue client dataset =
     \<lparr> bigquery_client = client,
       dataset_id = dataset,
       training_table_name = ''training_data'',
       predict_table_name = ''predict_features_data'',
       customer_id_column = ''customer_id'',
       date_column = ''date'',
       value_column = ''value'',
       features_types = None,
       ignore_columns = None,
       location = ''europe-west4'',
       days_lookback = 365,
       days_lookahead = 365,
       model_id = None,
       endpoint_id = None \<rparr>"

subsection \<open>Python values: truthiness, defaults, \<open>str.split\<close>\<close>

text \<open>
  \<open>not x\<close> for an optional string, list or mapping: \<open>None\<close> and the empty value
  are falsy, everything else is truthy.
\<close>

definition falsy :: "'a list option \<Rightarrow> bool" where
  "falsy x = (case x of None \<Rightarrow> True | Some v \<Rightarrow> v = [])"


text \<open>
  A parameter with a default value is an optional argument of the model: \<open>None\<close> is
  "not supplied", and the default takes its place.
\<close>

definition supplied_or :: "'a \<Rightarrow> 'a option \<Rightarrow> 'a" where
  "supplied_or d x = (case x of None \<Rightarrow> d | Some v \<Rightarrow> v)"

text \<open>
  \<open>s.split(sep)\<close> for a one-character separator: the result is never empty, and an
  empty string gives one empty segment.
\<close>

fun split :: "char \<Rightarrow> string \<Rightarrow> string list" where
  "split sep [] = [[]]"
| "split sep (c # cs) =
     (if c = sep then [] # split sep cs
      else (let r = split sep cs in (c # hd r) # tl r))"

subsection \<open>Errors\<close>

text \<open>
  The exceptions a method can end with: the ones its own statements raise
  (\<open>TypeError\<close> when line 233 concatenates a list and a collection that is not one,
  \<open>ValueError\<close> at line 240, \<open>UnboundLocalError\<close> when line 263 reads
  \<open>table_name\<close> unassigned, \<open>IndexError\<close> when line 389 indexes an empty list), and an
  exception \<open>e\<close> of a collaborator, which passes through the method as \<open>Propagated e\<close>.
\<close>

datatype 'e error =
    TypeError string
  | ValueError string
  | UnboundLocalError string
  | IndexError string
  | Propagated 'e

subsection \<open>Collaborators and the record of their calls\<close>

text \<open>
  One constructor per collaborator function, with the arguments in the order of the
  keyword arguments of the call in crystalvalue.py.
\<close>

datatype request =
    CreateSyntheticData bigquery_client string string int string string bool string
  | RunDataChecks bigquery_client string string string int int string string string int string
  | DetectFeatureTypes bigquery_client string string "collection option"
  | BuildQuery string bigquery_client string string "features_types option" "string option"
      int int string string string
  | RunQuery bigquery_client "string option" "string option" string string string
  | CreateAutomlDataset string string string string string
  | TrainAutomlModel string aiplatform_dataset string string string string int string
  | CreateBatchPredictions string string "string option" string string
  | LoadPredictionsToTable bigquery_client string batch_prediction_job string string string
  | DeployModel bigquery_client "string option" string
  | EvaluateModelPredictions bigquery_client string "string option" "string option"
      string string int

datatype 'e outcome = Returned | Raised 'e

text \<open>
  The collaborators are parameters: each one takes the arguments of its call and the
  state of the outside world (warehouse tables, Vertex AI resources, files), and gives
  back an exception or a value, and the world it leaves.
\<close>

record ('w, 'e) collaborators =
  synthetic_data_create_synthetic_data ::
    "bigquery_client \<Rightarrow> string \<Rightarrow> string \<Rightarrow> int \<Rightarrow> string \<Rightarrow> string \<Rightarrow> bool \<Rightarrow> string
      \<Rightarrow> 'w \<Rightarrow> ('e + dataframe) \<times> 'w"
  feature_engineering_run_data_checks ::
    "bigquery_client \<Rightarrow> string \<Rightarrow> string \<Rightarrow> string \<Rightarrow> int \<Rightarrow> int \<Rightarrow> string \<Rightarrow> string
      \<Rightarrow> string \<Rightarrow> int \<Rightarrow> string \<Rightarrow> 'w \<Rightarrow> ('e + dataframe) \<times> 'w"
  feature_engineering_detect_feature_types ::
    "bigquery_client \<Rightarrow> string \<Rightarrow> string \<Rightarrow> collection option
      \<Rightarrow> 'w \<Rightarrow> ('e + features_types) \<times> 'w"
  feature_engineering_build_query ::
    "string \<Rightarrow> bigquery_client \<Rightarrow> string \<Rightarrow> string \<Rightarrow> features_types option
      \<Rightarrow> string option \<Rightarrow> int \<Rightarrow> int \<Rightarrow> string \<Rightarrow> string \<Rightarrow> string
      \<Rightarrow> 'w \<Rightarrow> ('e + string) \<times> 'w"
  feature_engineering_run_query ::
    "bigquery_client \<Rightarrow> string option \<Rightarrow> string option \<Rightarrow> string \<Rightarrow> string \<Rightarrow> string
      \<Rightarrow> 'w \<Rightarrow> ('e + dataframe) \<times> 'w"
  automl_create_automl_dataset ::
    "string \<Rightarrow> string \<Rightarrow> string \<Rightarrow> string \<Rightarrow> string
      \<Rightarrow> 'w \<Rightarrow> ('e + aiplatform_dataset) \<times> 'w"
  automl_train_automl_model ::
    "string \<Rightarrow> aiplatform_dataset \<Rightarrow> string \<Rightarrow> string \<Rightarrow> string \<Rightarrow> string \<Rightarrow> int \<Rightarrow> string
      \<Rightarrow> 'w \<Rightarrow> ('e + aiplatform_model) \<times> 'w"
  automl_create_batch_predictions ::
    "string \<Rightarrow> string \<Rightarrow> string option \<Rightarrow> string \<Rightarrow> string
      \<Rightarrow> 'w \<Rightarrow> ('e + batch_prediction_job) \<times> 'w"
  automl_load_predictions_to_table ::
    "bigquery_client \<Rightarrow> string \<Rightarrow> batch_prediction_job \<Rightarrow> string \<Rightarrow> string \<Rightarrow> string
      \<Rightarrow> 'w \<Rightarrow> ('e + unit) \<times> 'w"
  automl_deploy_model ::
    "bigquery_client \<Rightarrow> string option \<Rightarrow> string
      \<Rightarrow> 'w \<Rightarrow> ('e + aiplatform_model) \<times> 'w"
  model_evaluation_evaluate_model_predictions ::
    "bigquery_client \<Rightarrow> string \<Rightarrow> string option \<Rightarrow> string option \<Rightarrow> string \<Rightarrow> string \<Rightarrow> int
      \<Rightarrow> 'w \<Rightarrow> ('e + dataframe) \<times> 'w"

text \<open>An argument of a \<open>logging.info\<close> call, rendered by \<open>%r\<close>.\<close>

datatype pyval = PyStr string | PyInt int

text \<open>
  The state a method runs in: the object (\<open>self\<close>), the outside world, the
  collaborator calls made so far, each with how it ended, and the lines given to
  \<open>logging.info\<close> (format string and arguments).
\<close>

record ('w, 'e) state =
  self :: CrystalValue
  world :: 'w
  calls :: "(request \<times> 'e outcome) list"
  logged :: "(string \<times> pyval list) list"

text \<open>
  One collaborator call: run it on the world, keep the world it leaves, and record the
  request with its outcome.
\<close>

definition outcome_of :: "'e + 'a \<Rightarrow> 'e outcome" where
  "outcome_of r = (case r of Inl e \<Rightarrow> Raised e | Inr v \<Rightarrow> Returned)"

definition call ::
  "request \<Rightarrow> ('w \<Rightarrow> ('e + 'a) \<times> 'w) \<Rightarrow> ('w, 'e) state \<Rightarrow> ('e + 'a) \<times> ('w, 'e) state" where
  "call req f s =
     (case f (world s) of
        (r, w') \<Rightarrow> (r, s\<lparr> world := w', calls := calls s @ [(req, outcome_of r)] \<rparr>))"

definition logging_info :: "string \<Rightarrow> pyval list \<Rightarrow> ('w, 'e) state \<Rightarrow> ('w, 'e) state" where
  "logging_info fmt args s = s\<lparr> logged := logged s @ [(fmt, args)] \<rparr>"

subsection \<open>The methods of \<open>CrystalValue\<close>\<close>

text \<open>\<open>__post_init__\<close> (lines 134 to 145) logs the configuration and changes nothing.\<close>

definition post_init :: "('w, 'e) state \<Rightarrow> ('w, 'e) state" where
  "post_init s =
     (let this = self s in
      logging_info ''Using days_lookahead for value prediction: %r'' [PyInt (days_lookahead this)]
       (logging_info ''Using days_lookback for feature calculation: %r'' [PyInt (days_lookback this)]
       (logging_info ''Using value column in input table: %r'' [PyStr (value_column this)]
       (logging_info ''Using date column in input table: %r'' [PyStr (date_column this)]
       (logging_info ''Using customer id column in input table: %r'' [PyStr (customer_id_column this)]
       (logging_info ''Using Google Cloud location: %r'' [PyStr (location this)]
       (logging_info ''Using dataset_id: %r'' [PyStr (dataset_id this)]
       (logging_info ''Using Google Cloud Project: %r'' [PyStr (project (bigquery_client this))]
          s))))))))"

text \<open>\<open>create_synthetic_data\<close> (lines 147 to 175).\<close>

definition create_synthetic_data ::
  "('w, 'e) collaborators \<Rightarrow> string option \<Rightarrow> int option \<Rightarrow> string option \<Rightarrow> string option
    \<Rightarrow> ('w, 'e) state \<Rightarrow> ('e error + dataframe) \<times> ('w, 'e) state" where
  "create_synthetic_data env table_name row_count start_date end_date s =
     (let this = self s;
          table_name' = supplied_or ''synthetic_data'' table_name;
          row_count' = supplied_or 100000 row_count;
          start_date' = supplied_or ''2018-01-01'' start_date;
          end_date' = supplied_or ''2021-01-01'' end_date
      in case call (CreateSyntheticData (bigquery_client this) (dataset_id this) table_name'
                      row_count' start_date' end_date' True (location this))
                (synthetic_data_create_synthetic_data env (bigquery_client this) (dataset_id this)
                      table_name' row_count' start_date' end_date' True (location this)) s of
           (Inl e, s') \<Rightarrow> (Inl (Propagated e), s')
         | (Inr data, s') \<Rightarrow> (Inr data, s'))"

text \<open>\<open>run_data_checks\<close> (lines 177 to 203).\<close>

definition run_data_checks ::
  "('w, 'e) collaborators \<Rightarrow> string \<Rightarrow> int option \<Rightarrow> string option
    \<Rightarrow> ('w, 'e) state \<Rightarrow> ('e error + dataframe) \<times> ('w, 'e) state" where
  "run_data_checks env transaction_table_name round_decimal_places summary_table_name s =
     (let this = self s;
          round_decimal_places' = supplied_or 2 round_decimal_places;
          summary_table_name' = supplied_or ''crystalvalue_data_statistics'' summary_table_name
      in case call (RunDataChecks (bigquery_client this) (dataset_id this) transaction_table_name
                      summary_table_name' (days_lookback this) (days_lookahead this)
                      (customer_id_column this) (date_column this) (value_column this)
                      round_decimal_places' (location this))
                (feature_engineering_run_data_checks env (bigquery_client this) (dataset_id this)
                      transaction_table_name summary_table_name' (days_lookback this)
                      (days_lookahead this) (customer_id_column this) (date_column this)
                      (value_column this) round_decimal_places' (location this)) s of
           (Inl e, s') \<Rightarrow> (Inl (Propagated e), s')
         | (Inr summary, s') \<Rightarrow> (Inr summary, s'))"

text \<open>\<open>run_query\<close> (lines 265 to 287): a call of \<open>feature_engineering.run_query\<close>.\<close>

definition run_query ::
  "('w, 'e) collaborators \<Rightarrow> string \<Rightarrow> string option \<Rightarrow> string option
    \<Rightarrow> ('w, 'e) state \<Rightarrow> ('e error + dataframe) \<times> ('w, 'e) state" where
  "run_query env destination_table_name query_sql query_file s =
     (let this = self s
      in case call (RunQuery (bigquery_client this) query_sql query_file (dataset_id this)
                      destination_table_name (location this))
                (feature_engineering_run_query env (bigquery_client this) query_sql query_file
                      (dataset_id this) destination_table_name (location this)) s of
           (Inl e, s') \<Rightarrow> (Inl (Propagated e), s')
         | (Inr data, s') \<Rightarrow> (Inr data, s'))"

text \<open>
  The loop of lines 241 to 243: one log line per detected feature, in the order of the
  mapping.
\<close>

definition log_detected :: "features_types \<Rightarrow> ('w, 'e) state \<Rightarrow> ('w, 'e) state" where
  "log_detected m s =
     fold (\<lambda>(feature_type, features) s1.
             fold (\<lambda>feature. logging_info ''Detected %r feature %r'' [PyStr feature_type, PyStr feature])
                  features s1)
          m s"

text \<open>
  The right-hand side of the assignment to \<open>self.ignore_columns\<close> at lines 229 to
  233: the customer id and date columns when \<open>ignore_columns\<close> is falsy, and otherwise
  these two followed by the supplied collection, which raises \<open>TypeError\<close> (on the
  left, with its message) when the collection is not a list.
\<close>

definition ignored_for_detection :: "CrystalValue \<Rightarrow> string + string list" where
  "ignored_for_detection this =
     (case ignore_columns this of
        None \<Rightarrow> Inr [customer_id_column this, date_column this]
      | Some c \<Rightarrow>
          if empty_collection c then Inr [customer_id_column this, date_column this]
          else list_add [customer_id_column this, date_column this] c)"

text \<open>
  The first block of \<open>feature_engineer\<close> (lines 228 to 243): when \<open>features_types\<close> is
  falsy, the new ignore list is computed; a \<open>TypeError\<close> there ends the call before
  anything is assigned or requested. Otherwise \<open>ignore_columns\<close> is overwritten, the
  detector is called with it, its result is stored in \<open>features_types\<close>, and an empty
  result raises \<open>ValueError\<close>.
\<close>

definition detect_block ::
  "('w, 'e) collaborators \<Rightarrow> string \<Rightarrow> ('w, 'e) state \<Rightarrow> ('e error + unit) \<times> ('w, 'e) state" where
  "detect_block env transaction_table_name s =
     (if falsy (features_types (self s)) then
        (case ignored_for_detection (self s) of
           Inl message \<Rightarrow> (Inl (TypeError message), s)
         | Inr ignored \<Rightarrow>
             (let s1 = s\<lparr> self := (self s)\<lparr> ignore_columns := Some (ListOf ignored) \<rparr> \<rparr>
              in case call (DetectFeatureTypes (bigquery_client (self s1)) (dataset_id (self s1))
                              transaction_table_name (ignore_columns (self s1)))
                        (feature_engineering_detect_feature_types env (bigquery_client (self s1))
                              (dataset_id (self s1)) transaction_table_name
                              (ignore_columns (self s1))) s1 of
                   (Inl e, s2) \<Rightarrow> (Inl (Propagated e), s2)
                 | (Inr detected, s2) \<Rightarrow>
                     (let s3 = s2\<lparr> self := (self s2)\<lparr> features_types := Some detected \<rparr> \<rparr>
                      in if falsy (features_types (self s3))
                         then (Inl (ValueError ''No features detected''), s3)
                         else (Inr (), log_detected detected s3))))
      else (Inr (), s))"

text \<open>
  \<open>feature_engineer\<close> (lines 205 to 263). \<open>table_name\<close> is assigned for the two query
  types of lines 258 and 260 only; for any other, reading it at line 263 raises
  \<open>UnboundLocalError\<close> before \<open>run_query\<close> is called.
\<close>

definition feature_engineer ::
  "('w, 'e) collaborators \<Rightarrow> string \<Rightarrow> string option \<Rightarrow> string option
    \<Rightarrow> ('w, 'e) state \<Rightarrow> ('e error + dataframe) \<times> ('w, 'e) state" where
  "feature_engineer env transaction_table_name query_type write_executed_query_file s =
     (let query_type' = supplied_or ''train_query'' query_type
      in case detect_block env transaction_table_name s of
           (Inl err, s1) \<Rightarrow> (Inl err, s1)
         | (Inr u, s1) \<Rightarrow>
             (let this = self s1
              in case call (BuildQuery query_type' (bigquery_client this) (dataset_id this)
                              transaction_table_name (features_types this) write_executed_query_file
                              (days_lookback this) (days_lookahead this) (customer_id_column this)
                              (date_column this) (value_column this))
                        (feature_engineering_build_query env query_type' (bigquery_client this)
                              (dataset_id this) transaction_table_name (features_types this)
                              write_executed_query_file (days_lookback this) (days_lookahead this)
                              (customer_id_column this) (date_column this) (value_column this)) s1 of
                   (Inl e, s2) \<Rightarrow> (Inl (Propagated e), s2)
                 | (Inr query, s2) \<Rightarrow>
                     (if query_type' = ''train_query'' then
                        run_query env (training_table_name (self s2)) (Some query) None s2
                      else if query_type' = ''predict_query'' then
                        run_query env (predict_table_name (self s2)) (Some query) None s2
                      else (Inl (UnboundLocalError ''table_name''), s2))))"

text \<open>\<open>train\<close> (lines 289 to 341).\<close>

definition train ::
  "('w, 'e) collaborators \<Rightarrow> string option \<Rightarrow> string option \<Rightarrow> string option \<Rightarrow> string option
    \<Rightarrow> string option \<Rightarrow> int option
    \<Rightarrow> ('w, 'e) state \<Rightarrow> ('e error + aiplatform_model) \<times> ('w, 'e) state" where
  "train env dataset_display_name model_display_name predefined_split_column_name target_column
         optimization_objective budget_milli_node_hours s =
     (let this = self s;
          dataset_display_name' = supplied_or ''crystalvalue_dataset'' dataset_display_name;
          model_display_name' = supplied_or ''crystalvalue_model'' model_display_name;
          predefined_split_column_name' =
            supplied_or ''predefined_split_column'' predefined_split_column_name;
          target_column' = supplied_or ''future_value'' target_column;
          optimization_objective' = supplied_or ''minimize-rmse'' optimization_objective;
          budget_milli_node_hours' = supplied_or 1000 budget_milli_node_hours
      in case call (CreateAutomlDataset (project (bigquery_client this)) (dataset_id this)
                      (training_table_name this) dataset_display_name' (location this))
                (automl_create_automl_dataset env (project (bigquery_client this)) (dataset_id this)
                      (training_table_name this) dataset_display_name' (location this)) s of
           (Inl e, s1) \<Rightarrow> (Inl (Propagated e), s1)
         | (Inr aiplatform_dataset, s1) \<Rightarrow>
             (case call (TrainAutomlModel (project (bigquery_client this)) aiplatform_dataset
                           model_display_name' predefined_split_column_name' target_column'
                           optimization_objective' budget_milli_node_hours' (location this))
                     (automl_train_automl_model env (project (bigquery_client this))
                           aiplatform_dataset model_display_name' predefined_split_column_name'
                           target_column' optimization_objective' budget_milli_node_hours'
                           (location this)) s1 of
                (Inl e, s2) \<Rightarrow> (Inl (Propagated e), s2)
              | (Inr model, s2) \<Rightarrow>
                  (Inr model, s2\<lparr> self := (self s2)\<lparr> model_id := Some (name model) \<rparr> \<rparr>)))"

text \<open>\<open>batch_predict\<close> (lines 343 to 374); \<open>model_id\<close> has no default.\<close>

definition batch_predict ::
  "('w, 'e) collaborators \<Rightarrow> string \<Rightarrow> string option \<Rightarrow> string option \<Rightarrow> string option
    \<Rightarrow> ('w, 'e) state \<Rightarrow> ('e error + unit) \<times> ('w, 'e) state" where
  "batch_predict env input_table_name model_id_arg model_name destination_table s =
     (let this = self s;
          model_name' = supplied_or ''crystalvalue_model'' model_name;
          destination_table' = supplied_or ''crystalvalue_predictions'' destination_table;
          model_id' = (if falsy model_id_arg then model_id this else model_id_arg)
      in case call (CreateBatchPredictions (project (bigquery_client this)) (dataset_id this)
                      model_id' input_table_name (location this))
                (automl_create_batch_predictions env (project (bigquery_client this))
                      (dataset_id this) model_id' input_table_name (location this)) s of
           (Inl e, s1) \<Rightarrow> (Inl (Propagated e), s1)
         | (Inr batch_predictions, s1) \<Rightarrow>
             (case call (LoadPredictionsToTable (bigquery_client this) (dataset_id this)
                           batch_predictions (location this) destination_table' model_name')
                     (automl_load_predictions_to_table env (bigquery_client this) (dataset_id this)
                           batch_predictions (location this) destination_table' model_name') s1 of
                (Inl e, s2) \<Rightarrow> (Inl (Propagated e), s2)
              | (Inr u, s2) \<Rightarrow> (Inr (), s2)))"

text \<open>
  \<open>deploy_model\<close> (lines 376 to 391). \<open>deployed_models[0]\<close> raises \<open>IndexError\<close> on
  an empty list; \<open>split('/')[-1]\<close> is the last segment.
\<close>

definition deploy_model ::
  "('w, 'e) collaborators \<Rightarrow> string option
    \<Rightarrow> ('w, 'e) state \<Rightarrow> ('e error + aiplatform_model) \<times> ('w, 'e) state" where
  "deploy_model env model_id_arg s =
     (let this = self s;
          model_id' = (if falsy model_id_arg then model_id this else model_id_arg)
      in case call (DeployModel (bigquery_client this) model_id' (location this))
                (automl_deploy_model env (bigquery_client this) model_id' (location this)) s of
           (Inl e, s1) \<Rightarrow> (Inl (Propagated e), s1)
         | (Inr model, s1) \<Rightarrow>
             (case deployed_models (gca_resource model) of
                [] \<Rightarrow> (Inl (IndexError ''list index out of range''), s1)
              | first # rest \<Rightarrow>
                  (Inr model,
                   s1\<lparr> self := (self s1)\<lparr> endpoint_id :=
                          Some (last (split CHR ''/'' (endpoint first))) \<rparr> \<rparr>)))"

text \<open>\<open>evaluate_model\<close> (lines 393 to 419); \<open>endpoint_id\<close> has no default.\<close>

definition evaluate_model ::
  "('w, 'e) collaborators \<Rightarrow> string option \<Rightarrow> string option \<Rightarrow> int option
    \<Rightarrow> ('w, 'e) state \<Rightarrow> ('e error + dataframe) \<times> ('w, 'e) state" where
  "evaluate_model env endpoint_id_arg table_evaluation_stats number_bins s =
     (let this = self s;
          table_evaluation_stats' = supplied_or ''crystalvalue_evaluation'' table_evaluation_stats;
          number_bins' = supplied_or 10 number_bins;
          endpoint_id' = (if falsy endpoint_id_arg then endpoint_id this else endpoint_id_arg)
      in case call (EvaluateModelPredictions (bigquery_client this) (dataset_id this) endpoint_id'
                      (model_id this) table_evaluation_stats' (location this) number_bins')
                (model_evaluation_evaluate_model_predictions env (bigquery_client this)
                      (dataset_id this) endpoint_id' (model_id this) table_evaluation_stats'
                      (location this) number_bins') s of
           (Inl e, s1) \<Rightarrow> (Inl (Propagated e), s1)
         | (Inr stats, s1) \<Rightarrow> (Inr stats, s1))"

subsection \<open>Observing a run\<close>

text \<open>The collaborator requests made between two states of a run, in order.\<close>

definition requests_made :: "('w, 'e) state \<Rightarrow> ('w, 'e) state \<Rightarrow> request list" where
  "requests_made s s' = map fst (drop (length (calls s)) (calls s'))"

text \<open>
  A run that starts in \<open>s\<close> and ends as \<open>out\<close> passes collaborator failures on
  unchanged: whenever one of the calls it made raised \<open>e\<close>, no call came after it and the
  run ended with that \<open>e\<close>.
\<close>

definition failures_propagate ::
  "('w, 'e) state \<Rightarrow> ('e error + 'a) \<times> ('w, 'e) state \<Rightarrow> bool" where
  "failures_propagate s out =
     (\<exists>made. calls (snd out) = calls s @ made \<and>
        (\<forall>before req e after. made = before @ (req, Raised e) # after \<longrightarrow>
            after = [] \<and> fst out = Inl (Propagated e)))"

text \<open>The same property as a function on the calls made, first to last.\<close>

fun terminal_failures :: "(request \<times> 'e outcome) list \<Rightarrow> 'e error + 'a \<Rightarrow> bool" where
  "terminal_failures [] r = True"
| "terminal_failures ((req, Returned) # made) r = terminal_failures made r"
| "terminal_failures ((req, Raised e) # made) r = (made = [] \<and> r = Inl (Propagated e))"

text \<open>
  The answer of the query builder to the call of lines 245 to 256, made in state \<open>s1\<close>
  (the state the first block of \<open>feature_engineer\<close> leaves).
\<close>

definition build_query_answer ::
  "('w, 'e) collaborators \<Rightarrow> string \<Rightarrow> string option \<Rightarrow> string option \<Rightarrow> ('w, 'e) state
    \<Rightarrow> ('e + string) \<times> 'w" where
  "build_query_answer env transaction_table_name query_type write_executed_query_file s1 =
     feature_engineering_build_query env (supplied_or ''train_query'' query_type)
       (bigquery_client (self s1)) (dataset_id (self s1)) transaction_table_name
       (features_types (self s1)) write_executed_query_file (days_lookback (self s1))
       (days_lookahead (self s1)) (customer_id_column (self s1)) (date_column (self s1))
       (value_column (self s1)) (world s1)"

fun is_run_query :: "request \<Rightarrow> bool" where
  "is_run_query (RunQuery client query_sql query_file dataset destination loc) = True"
| "is_run_query req = False"

fun is_build_query :: "request \<Rightarrow> bool" where
  "is_build_query (BuildQuery query_type client dataset table_name types file lookback lookahead
                     cid date val) = True"
| "is_build_query req = False"

subsection \<open>The query executor of \<open>feature_engineering\<close>\<close>

text \<open>
  Modelled from the spec: \<open>feature_engineering.run_query\<close> is not under src/.
  Section 4.3: it "accepts either a literal query string or a path to one (exactly one
  must be provided - fails otherwise), executes it against the warehouse, and writes
  results to a specified destination table, in a specified processing location. Returns
  the resulting table's contents." Section 8 calls the failure a precondition error.
  The warehouse holds tables by dataset and table name; reading a query file and
  evaluating a query are the services it rests on, and they are parameters.
\<close>

datatype 'x run_query_error = PreconditionError string | ServiceError 'x

record warehouse =
  tables :: "string \<times> string \<rightharpoonup> dataframe"

record 'x services =
  read_query_file :: "string \<Rightarrow> 'x + string"
  evaluate_query :: "bigquery_client \<Rightarrow> string \<Rightarrow> string \<Rightarrow> warehouse \<Rightarrow> 'x + dataframe"

definition execute_into ::
  "'x services \<Rightarrow> bigquery_client \<Rightarrow> string \<Rightarrow> string \<Rightarrow> string \<Rightarrow> string \<Rightarrow> warehouse
    \<Rightarrow> ('x run_query_error + dataframe) \<times> warehouse" where
  "execute_into sv client sql dataset destination_table_name loc w =
     (case evaluate_query sv client sql loc w of
        Inl x \<Rightarrow> (Inl (ServiceError x), w)
      | Inr rows \<Rightarrow>
          (Inr rows, w\<lparr> tables := (tables w)((dataset, destination_table_name) \<mapsto> rows) \<rparr>))"

definition feature_engineering_run_query_spec ::
  "'x services \<Rightarrow> bigquery_client \<Rightarrow> string option \<Rightarrow> string option \<Rightarrow> string \<Rightarrow> string \<Rightarrow> string
    \<Rightarrow> warehouse \<Rightarrow> ('x run_query_error + dataframe) \<times> warehouse" where
  "feature_engineering_run_query_spec sv client query_sql query_file dataset
       destination_table_name loc w =
     (case (query_sql, query_file) of
        (Some sql, None) \<Rightarrow> execute_into sv client sql dataset destination_table_name loc w
      | (None, Some path) \<Rightarrow>
          (case read_query_file sv path of
             Inl x \<Rightarrow> (Inl (ServiceError x), w)
           | Inr sql \<Rightarrow> execute_into sv client sql dataset destination_table_name loc w)
      | (Some sql, Some path) \<Rightarrow>
          (Inl (PreconditionError ''exactly one of query_sql and query_file must be provided''), w)
      | (None, None) \<Rightarrow>
          (Inl (PreconditionError ''exactly one of query_sql and query_file must be provided''), w))"

subsection \<open>The evaluator's binning\<close>

text \<open>
  Modelled from the spec: \<open>model_evaluation.evaluate_model_predictions\<close> is not under
  src/. Section 4.4: "given matched predicted and actual values for a holdout set, sort
  by predicted value descending, partition into number_bins equal-sized buckets (deciles
  by default), and for each bucket compute: mean predicted, mean actual, [...]. Returns
  one row per bucket plus summary fields. [...] any missing/null actual values are
  excluded prior to binning". Values are real numbers here. Bucket \<open>i\<close> of \<open>n\<close> values
  runs from position \<open>i * n div number_bins\<close> up to \<open>(i + 1) * n div number_bins\<close>; the
  buckets have one size when \<open>number_bins\<close> divides \<open>n\<close>. Of a row, the two means are
  modelled.
\<close>

definition matched_pairs :: "(real \<times> real option) list \<Rightarrow> (real \<times> real) list" where
  "matched_pairs pairs =
     concat (map (\<lambda>(predicted, actual).
                    case actual of None \<Rightarrow> [] | Some a \<Rightarrow> [(predicted, a)]) pairs)"

definition sort_by_predicted_descending :: "(real \<times> real) list \<Rightarrow> (real \<times> real) list" where
  "sort_by_predicted_descending pairs = rev (sort_key fst pairs)"

definition bucket :: "nat \<Rightarrow> nat \<Rightarrow> 'a list \<Rightarrow> 'a list" where
  "bucket number_bins i xs =
     take ((i + 1) * length xs div number_bins - i * length xs div number_bins)
          (drop (i * length xs div number_bins) xs)"

definition buckets :: "nat \<Rightarrow> 'a list \<Rightarrow> 'a list list" where
  "buckets number_bins xs = map (\<lambda>i. bucket number_bins i xs) [0..<number_bins]"

definition mean :: "real list \<Rightarrow> real" where
  "mean xs = sum_list xs / real (length xs)"

record evaluation_row =
  mean_predicted :: real
  mean_actual :: real

definition bucket_row :: "(real \<times> real) list \<Rightarrow> evaluation_row" where
  "bucket_row b = \<lparr> mean_predicted = mean (map fst b), mean_actual = mean (map snd b) \<rparr>"

definition evaluation_buckets :: "nat \<Rightarrow> (real \<times> real option) list \<Rightarrow> (real \<times> real) list list" where
  "evaluation_buckets number_bins pairs =
     buckets number_bins (sort_by_predicted_descending (matched_pairs pairs))"

definition evaluate_model_predictions_spec ::
  "nat \<Rightarrow> (real \<times> real option) list \<Rightarrow> evaluation_row list" where
  "evaluate_model_predictions_spec number_bins pairs =
     map bucket_row (evaluation_buckets number_bins pairs)"

subsection \<open>A concrete run\<close>

text \<open>
  Collaborators for concrete runs: every call succeeds with a fixed answer and leaves
  the world as it is. The detector classifies the columns of a four-column transaction
  table that are not in the ignore list it is given.
\<close>

fun elements :: "collection \<Rightarrow> string set" where
  "elements (ListOf xs) = set xs"
| "elements (TupleOf xs) = set xs"
| "elements (SetOf X) = X"
| "elements (StrOf s) = set (map (\<lambda>c. [c]) s)"

definition stub_detect :: "collection option \<Rightarrow> features_types" where
  "stub_detect ignore =
     [(''numeric'',
        filter (\<lambda>c. c \<notin> (case ignore of None \<Rightarrow> {} | Some xs \<Rightarrow> elements xs))
          [''customer_id'', ''value'']),
      (''string_or_categorical'',
        filter (\<lambda>c. c \<notin> (case ignore of None \<Rightarrow> {} | Some xs \<Rightarrow> elements xs))
          [''date'', ''country''])]"

definition stub_model :: aiplatform_model where
  "stub_model =
     \<lparr> name = ''7710'',
       gca_resource =
         \<lparr> deployed_models = [\<lparr> endpoint = ''projects/12/locations/europe-west4/endpoints/345'' \<rparr>] \<rparr> \<rparr>"

definition stub_collaborators :: "('w, 'e) collaborators" where
  "stub_collaborators =
     \<lparr> synthetic_data_create_synthetic_data =
         (\<lambda>client dataset table_name row_count start_date end_date load loc w. (Inr [[''synthetic'']], w)),
       feature_engineering_run_data_checks =
         (\<lambda>client dataset table_name summary lookback lookahead cid date val places loc w.
            (Inr [[''summary'']], w)),
       feature_engineering_detect_feature_types =
         (\<lambda>client dataset table_name ignore w. (Inr (stub_detect ignore), w)),
       feature_engineering_build_query =
         (\<lambda>query_type client dataset table_name types file lookback lookahead cid date val w.
            (Inr ''SELECT 1'', w)),
       feature_engineering_run_query =
         (\<lambda>client query_sql query_file dataset destination loc w. (Inr [[''features'']], w)),
       automl_create_automl_dataset =
         (\<lambda>project_id dataset table_name display_name loc w. (Inr ''dataset-1'', w)),
       automl_train_automl_model =
         (\<lambda>project_id ds display_name split target objective budget loc w. (Inr stub_model, w)),
       automl_create_batch_predictions =
         (\<lambda>project_id dataset model table_name loc w. (Inr ''job-1'', w)),
       automl_load_predictions_to_table =
         (\<lambda>client dataset job loc destination model_name w. (Inr (), w)),
       automl_deploy_model =
         (\<lambda>client model loc w. (Inr stub_model, w)),
       model_evaluation_evaluate_model_predictions =
         (\<lambda>client dataset endpoint_name model stats loc bins w. (Inr [[''evaluation'']], w)) \<rparr>"

definition pipeline :: CrystalValue where
  "pipeline = new_CrystalValue \<lparr> project = ''my-project'' \<rparr> ''my_dataset''"

definition fresh :: "'w \<Rightarrow> ('w, 'e) state" where
  "fresh w = \<lparr> self = pipeline, world = w, calls = [], logged = [] \<rparr>"


text \<open>The same run after training: the model id is stored.\<close>

definition trained :: "'w \<Rightarrow> ('w, 'e) state" where
  "trained w = \<lparr> self = pipeline\<lparr> model_id := Some ''7710'' \<rparr>, world = w, calls = [], logged = [] \<rparr>"

text \<open>And after deployment: the endpoint id is stored as well.\<close>

definition deployed :: "'w \<Rightarrow> ('w, 'e) state" where
  "deployed w =
     \<lparr> self = pipeline\<lparr> model_id := Some ''7710'', endpoint_id := Some ''345'' \<rparr>,
       world = w, calls = [], logged = [] \<rparr>"

text \<open>Collaborators whose detector finds no feature at all.\<close>

definition blind_collaborators :: "('w, 'e) collaborators" where
  "blind_collaborators =
     stub_collaborators\<lparr> feature_engineering_detect_feature_types :=
       (\<lambda>client dataset table_name ignore w. (Inr [], w)) \<rparr>"


text \<open>Collaborators whose training call fails: the service is out of quota.\<close>

definition failing_training :: "('w, string) collaborators" where
  "failing_training =
     stub_collaborators\<lparr> automl_train_automl_model :=
       (\<lambda>project_id ds display_name split target objective budget loc w.
          (Inl ''quota exceeded'', w)) \<rparr>"

text \<open>
  A warehouse for concrete runs of the query executor: one query file, one query that
  evaluates, and no table yet.
\<close>

definition stub_services :: "string services" where
  "stub_services =
     \<lparr> read_query_file =
         (\<lambda>path. if path = ''query.sql'' then Inr ''SELECT 1'' else Inl ''no such file''),
       evaluate_query =
         (\<lambda>client sql loc w. if sql = ''SELECT 1'' then Inr [[''1'']] else Inl ''syntax error'') \<rparr>"

definition warehouse_collaborators :: "(warehouse, string run_query_error) collaborators" where
  "warehouse_collaborators =
     stub_collaborators\<lparr> feature_engineering_run_query :=
       feature_engineering_run_query_spec stub_services \<rparr>"

definition empty_warehouse :: warehouse where
  "empty_warehouse = \<lparr> tables = (\<lambda>table. None) \<rparr>"

text \<open>
  A holdout set for concrete runs of the evaluator: 105 predictions, of which every
  twenty-first has no actual value, so that 100 matched pairs remain.
\<close>

definition holdout :: "(real \<times> real option) list" where
  "holdout =
     map (\<lambda>i. (real i, if i mod 21 = 20 then None else Some (real i + 1))) [0..<105]"
section \<open>Properties\<close>

subsection \<open>Collaborator calls and logging leave the object alone\<close>

lemma call_eq:
  "call req f s =
     (fst (f (world s)),
      s\<lparr> world := snd (f (world s)), calls := calls s @ [(req, outcome_of (fst (f (world s))))] \<rparr>)"
  by (simp add: call_def split: prod.splits)

lemma logging_info_simps [simp]:
  "self (logging_info fmt args s) = self s"
  "world (logging_info fmt args s) = world s"
  "calls (logging_info fmt args s) = calls s"
  by (simp_all add: logging_info_def)

lemma fold_logging_info [simp]:
  "self (fold (\<lambda>x. logging_info fmt (g x)) xs s) = self s"
  "world (fold (\<lambda>x. logging_info fmt (g x)) xs s) = world s"
  "calls (fold (\<lambda>x. logging_info fmt (g x)) xs s) = calls s"
  by (induction xs arbitrary: s; simp)+

lemma log_detected_simps [simp]:
  "self (log_detected m s) = self s"
  "world (log_detected m s) = world s"
  "calls (log_detected m s) = calls s"
  unfolding log_detected_def
  by (induction m arbitrary: s; simp split: prod.splits)+

subsection \<open>The model used by \<open>batch_predict\<close>\<close>

text \<open>
  Claim C3. In every call of \<open>batch_predict\<close> the first request is the batch
  prediction request. When the \<open>model_id\<close> argument is falsy (\<open>None\<close> or empty),
  the model of that request is the stored \<open>model_id\<close> field. When the argument is
  truthy, it is the argument itself, and the stored field is not consulted: with any
  other stored value the call gives the same result, world and calls.
\<close>

theorem batch_predict_model_fallback:
  "(falsy model_id_arg \<longrightarrow>
      take 1 (requests_made s
          (snd (batch_predict env input_table_name model_id_arg model_name destination_table s)))
        = [CreateBatchPredictions (project (bigquery_client (self s))) (dataset_id (self s))
             (model_id (self s)) input_table_name (location (self s))])
   \<and> (\<not> falsy model_id_arg \<longrightarrow>
      take 1 (requests_made s
          (snd (batch_predict env input_table_name model_id_arg model_name destination_table s)))
        = [CreateBatchPredictions (project (bigquery_client (self s))) (dataset_id (self s))
             model_id_arg input_table_name (location (self s))]
      \<and> (\<forall>stored.
           batch_predict env input_table_name model_id_arg model_name destination_table
               (s\<lparr> self := (self s)\<lparr> model_id := stored \<rparr> \<rparr>)
           = (case batch_predict env input_table_name model_id_arg model_name destination_table s of
                (r, s') \<Rightarrow> (r, s'\<lparr> self := (self s')\<lparr> model_id := stored \<rparr> \<rparr>))))"
  by (simp add: batch_predict_def requests_made_def call_eq Let_def split: prod.splits sum.splits)

lemma trained_fields:
  "project (bigquery_client (self (trained w))) = ''my-project''"
  "dataset_id (self (trained w)) = ''my_dataset''"
  "location (self (trained w)) = ''europe-west4''"
  "model_id (self (trained w)) = Some ''7710''"
  by (simp_all add: trained_def pipeline_def new_CrystalValue_def)

theorem batch_predict_model_fallback_witness:
  "falsy (Some '''') \<and> \<not> falsy (Some ''991'')
   \<and> take 1 (requests_made (trained (0::nat) :: (nat, string) state)
        (snd (batch_predict stub_collaborators ''predict_features_data'' (Some '''') None None (trained 0))))
       = [CreateBatchPredictions ''my-project'' ''my_dataset'' (Some ''7710'')
            ''predict_features_data'' ''europe-west4'']
   \<and> take 1 (requests_made (trained (0::nat) :: (nat, string) state)
        (snd (batch_predict stub_collaborators ''predict_features_data'' (Some ''991'') None None (trained 0))))
       = [CreateBatchPredictions ''my-project'' ''my_dataset'' (Some ''991'')
            ''predict_features_data'' ''europe-west4'']"
proof -
  have f: "falsy (Some '''')" and t: "\<not> falsy (Some ''991'')"
    by (simp_all add: falsy_def)
  note a = batch_predict_model_fallback
    [of "Some ''''" "trained 0 :: (nat, string) state" stub_collaborators "''predict_features_data''" None None,
      THEN conjunct1, THEN mp, OF f]
  note b = batch_predict_model_fallback
    [of "Some ''991''" "trained 0 :: (nat, string) state" stub_collaborators "''predict_features_data''" None None,
      THEN conjunct2, THEN mp, OF t, THEN conjunct1]
  show ?thesis using f t a b by (simp only: trained_fields simp_thms)
qed


subsection \<open>The same fallback in \<open>deploy_model\<close> and \<open>evaluate_model\<close>\<close>

text \<open>
  Claim C10. \<open>deploy_model\<close> asks for the deployment of the stored \<open>model_id\<close> when
  its \<open>model_id\<close> argument is falsy and of the argument itself when it is truthy;
  \<open>evaluate_model\<close> evaluates the stored \<open>endpoint_id\<close> when its \<open>endpoint_id\<close>
  argument is falsy and the argument itself when it is truthy.
\<close>

theorem deploy_and_evaluate_fallback:
  "(falsy model_id_arg \<longrightarrow>
      requests_made s (snd (deploy_model env model_id_arg s))
        = [DeployModel (bigquery_client (self s)) (model_id (self s)) (location (self s))])
   \<and> (\<not> falsy model_id_arg \<longrightarrow>
      requests_made s (snd (deploy_model env model_id_arg s))
        = [DeployModel (bigquery_client (self s)) model_id_arg (location (self s))])
   \<and> (falsy endpoint_id_arg \<longrightarrow>
      requests_made s (snd (evaluate_model env endpoint_id_arg table_evaluation_stats number_bins s))
        = [EvaluateModelPredictions (bigquery_client (self s)) (dataset_id (self s))
             (endpoint_id (self s)) (model_id (self s))
             (supplied_or ''crystalvalue_evaluation'' table_evaluation_stats)
             (location (self s)) (supplied_or 10 number_bins)])
   \<and> (\<not> falsy endpoint_id_arg \<longrightarrow>
      requests_made s (snd (evaluate_model env endpoint_id_arg table_evaluation_stats number_bins s))
        = [EvaluateModelPredictions (bigquery_client (self s)) (dataset_id (self s))
             endpoint_id_arg (model_id (self s))
             (supplied_or ''crystalvalue_evaluation'' table_evaluation_stats)
             (location (self s)) (supplied_or 10 number_bins)])"
  by (simp add: deploy_model_def evaluate_model_def requests_made_def call_eq Let_def
           split: prod.splits sum.splits list.splits)

lemma deployed_fields:
  "bigquery_client (self (deployed w)) = \<lparr> project = ''my-project'' \<rparr>"
  "dataset_id (self (deployed w)) = ''my_dataset''"
  "location (self (deployed w)) = ''europe-west4''"
  "model_id (self (deployed w)) = Some ''7710''"
  "endpoint_id (self (deployed w)) = Some ''345''"
  by (simp_all add: deployed_def pipeline_def new_CrystalValue_def)

theorem deploy_and_evaluate_fallback_witness:
  "falsy (None :: string option) \<and> \<not> falsy (Some ''88'')
   \<and> requests_made (deployed (0::nat) :: (nat, string) state)
        (snd (deploy_model stub_collaborators None (deployed 0)))
       = [DeployModel \<lparr> project = ''my-project'' \<rparr> (Some ''7710'') ''europe-west4'']
   \<and> requests_made (deployed (0::nat) :: (nat, string) state)
        (snd (deploy_model stub_collaborators (Some ''88'') (deployed 0)))
       = [DeployModel \<lparr> project = ''my-project'' \<rparr> (Some ''88'') ''europe-west4'']
   \<and> requests_made (deployed (0::nat) :: (nat, string) state)
        (snd (evaluate_model stub_collaborators None None None (deployed 0)))
       = [EvaluateModelPredictions \<lparr> project = ''my-project'' \<rparr> ''my_dataset'' (Some ''345'')
            (Some ''7710'') ''crystalvalue_evaluation'' ''europe-west4'' 10]
   \<and> requests_made (deployed (0::nat) :: (nat, string) state)
        (snd (evaluate_model stub_collaborators (Some ''88'') None None (deployed 0)))
       = [EvaluateModelPredictions \<lparr> project = ''my-project'' \<rparr> ''my_dataset'' (Some ''88'')
            (Some ''7710'') ''crystalvalue_evaluation'' ''europe-west4'' 10]"
proof -
  have f: "falsy (None :: string option)" and t: "\<not> falsy (Some ''88'')"
    by (simp_all add: falsy_def)
  note all = deploy_and_evaluate_fallback
    [where s = "deployed 0 :: (nat, string) state" and env = stub_collaborators
       and table_evaluation_stats = None and number_bins = None]
  note a = all [where model_id_arg = None, THEN conjunct1, THEN mp, OF f]
  note b = all [where model_id_arg = "Some ''88''", THEN conjunct2, THEN conjunct1, THEN mp, OF t]
  note c = all [where endpoint_id_arg = None, THEN conjunct2, THEN conjunct2, THEN conjunct1,
                 THEN mp, OF f]
  note d = all [where endpoint_id_arg = "Some ''88''", THEN conjunct2, THEN conjunct2,
                 THEN conjunct2, THEN mp, OF t]
  show ?thesis using f t a b c d
    by (simp only: deployed_fields supplied_or_def option.case simp_thms)
qed

subsection \<open>What each method leaves of the object\<close>

lemma call_frame [simp]:
  "self (snd (call req f s)) = self s"
  "logged (snd (call req f s)) = logged s"
  by (simp_all add: call_eq)

lemma post_init_self: "self (post_init s) = self s"
  by (simp add: post_init_def Let_def)

lemma create_synthetic_data_self:
  "self (snd (create_synthetic_data env table_name row_count start_date end_date s)) = self s"
  by (simp add: create_synthetic_data_def Let_def call_eq split: prod.splits sum.splits)

lemma run_data_checks_self:
  "self (snd (run_data_checks env transaction_table_name round_decimal_places summary_table_name s))
     = self s"
  by (simp add: run_data_checks_def Let_def call_eq split: prod.splits sum.splits)

lemma run_query_self:
  "self (snd (run_query env destination_table_name query_sql query_file s)) = self s"
  by (simp add: run_query_def Let_def call_eq split: prod.splits sum.splits)

lemma batch_predict_self:
  "self (snd (batch_predict env input_table_name model_id_arg model_name destination_table s))
     = self s"
  by (simp add: batch_predict_def Let_def call_eq split: prod.splits sum.splits)

lemma evaluate_model_self:
  "self (snd (evaluate_model env endpoint_id_arg table_evaluation_stats number_bins s)) = self s"
  by (simp add: evaluate_model_def Let_def call_eq split: prod.splits sum.splits)

lemma detect_block_frame:
  "self (snd (detect_block env transaction_table_name s))
     = (self s)\<lparr> features_types := features_types (self (snd (detect_block env transaction_table_name s))),
                  ignore_columns := ignore_columns (self (snd (detect_block env transaction_table_name s))) \<rparr>"
  by (simp add: detect_block_def Let_def call_eq split: prod.splits sum.splits)

lemma feature_engineer_self:
  "self (snd (feature_engineer env transaction_table_name query_type write_executed_query_file s))
     = self (snd (detect_block env transaction_table_name s))"
  by (simp add: feature_engineer_def Let_def call_eq run_query_self split: prod.splits sum.splits)

lemma train_frame:
  "self (snd (train env dataset_display_name model_display_name predefined_split_column_name
                target_column optimization_objective budget_milli_node_hours s))
     = (self s)\<lparr> model_id := model_id (self (snd (train env dataset_display_name model_display_name
                predefined_split_column_name target_column optimization_objective
                budget_milli_node_hours s))) \<rparr>"
  by (simp add: train_def Let_def call_eq split: prod.splits sum.splits)

lemma deploy_model_frame:
  "self (snd (deploy_model env model_id_arg s))
     = (self s)\<lparr> endpoint_id := endpoint_id (self (snd (deploy_model env model_id_arg s))) \<rparr>"
  by (simp add: deploy_model_def Let_def call_eq split: prod.splits sum.splits list.splits)

subsection \<open>The last segment of a split\<close>

lemma split_not_empty [simp]: "split sep s \<noteq> []"
  by (induction s) (simp_all add: Let_def)

lemma split_without_separator: "sep \<notin> set s \<Longrightarrow> split sep s = [s]"
  by (induction s) (auto simp add: Let_def)

lemma split_with_separator: "tl (split sep (xs @ sep # ys)) \<noteq> []"
  by (induction xs) (simp_all add: Let_def)

lemma last_split_append:
  "last (split sep (xs @ sep # ys)) = last (split sep ys)"
  by (induction xs) (simp_all add: Let_def last_tl split_with_separator)

lemma last_split_no_separator: "sep \<notin> set (last (split sep s))"
proof (induction s)
  case Nil
  then show ?case by simp
next
  case (Cons c cs)
  show ?case
  proof (cases "c = sep")
    case True
    with Cons show ?thesis by simp
  next
    case False
    show ?thesis
    proof (cases "tl (split sep cs) = []")
      case True
      then have "split sep cs = [hd (split sep cs)]"
        by (cases "split sep cs") simp_all
      with Cons False True show ?thesis
        by (simp add: Let_def) (metis last.simps)
    next
      case False2: False
      with Cons False show ?thesis
        by (simp add: Let_def last_tl)
    qed
  qed
qed

lemma last_split_suffix: "\<exists>before. s = before @ last (split sep s)"
proof (cases "sep \<in> set s")
  case False
  then show ?thesis by (simp add: split_without_separator)
next
  case True
  then obtain xs ys where s: "s = xs @ sep # ys" and "sep \<notin> set ys"
    by (meson split_list_last)
  then have "last (split sep s) = ys"
    by (simp add: last_split_append split_without_separator)
  with s show ?thesis
    by (metis append.assoc append_Cons append_Nil)
qed

subsection \<open>Identifiers kept by training and deployment\<close>

text \<open>
  Claim C4. After a successful \<open>train\<close> the \<open>model_id\<close> field is the name of the model
  returned. After a successful \<open>deploy_model\<close> the returned model has a first deployed
  model, and the \<open>endpoint_id\<close> field is the last segment, split at \<open>/\<close>, of its
  endpoint. No other method sets the two fields: \<open>train\<close> leaves \<open>endpoint_id\<close> as it
  was, \<open>deploy_model\<close> leaves \<open>model_id\<close> as it was, and every other method leaves
  both, whether it returns or raises.
\<close>

theorem identifiers_persisted:
  "(\<forall>model. fst (train env dataset_display_name model_display_name predefined_split_column_name
                 target_column optimization_objective budget_milli_node_hours s) = Inr model \<longrightarrow>
       model_id (self (snd (train env dataset_display_name model_display_name
                 predefined_split_column_name target_column optimization_objective
                 budget_milli_node_hours s))) = Some (name model))
   \<and> (\<forall>model. fst (deploy_model env model_id_arg s) = Inr model \<longrightarrow>
       deployed_models (gca_resource model) \<noteq> [] \<and>
       endpoint_id (self (snd (deploy_model env model_id_arg s)))
         = Some (last (split CHR ''/'' (endpoint (hd (deployed_models (gca_resource model)))))))
   \<and> endpoint_id (self (snd (train env dataset_display_name model_display_name
                 predefined_split_column_name target_column optimization_objective
                 budget_milli_node_hours s))) = endpoint_id (self s)
   \<and> model_id (self (snd (deploy_model env model_id_arg s))) = model_id (self s)
   \<and> model_id (self (post_init s)) = model_id (self s)
   \<and> endpoint_id (self (post_init s)) = endpoint_id (self s)
   \<and> model_id (self (snd (create_synthetic_data env table_name row_count start_date end_date s)))
        = model_id (self s)
   \<and> endpoint_id (self (snd (create_synthetic_data env table_name row_count start_date end_date s)))
        = endpoint_id (self s)
   \<and> model_id (self (snd (run_data_checks env transaction_table_name round_decimal_places
                               summary_table_name s))) = model_id (self s)
   \<and> endpoint_id (self (snd (run_data_checks env transaction_table_name round_decimal_places
                               summary_table_name s))) = endpoint_id (self s)
   \<and> model_id (self (snd (feature_engineer env transaction_table_name query_type
                               write_executed_query_file s))) = model_id (self s)
   \<and> endpoint_id (self (snd (feature_engineer env transaction_table_name query_type
                               write_executed_query_file s))) = endpoint_id (self s)
   \<and> model_id (self (snd (run_query env destination_table_name query_sql query_file s)))
        = model_id (self s)
   \<and> endpoint_id (self (snd (run_query env destination_table_name query_sql query_file s)))
        = endpoint_id (self s)
   \<and> model_id (self (snd (batch_predict env input_table_name model_id_arg model_name
                               destination_table s))) = model_id (self s)
   \<and> endpoint_id (self (snd (batch_predict env input_table_name model_id_arg model_name
                               destination_table s))) = endpoint_id (self s)
   \<and> model_id (self (snd (evaluate_model env endpoint_id_arg table_evaluation_stats number_bins s)))
        = model_id (self s)
   \<and> endpoint_id (self (snd (evaluate_model env endpoint_id_arg table_evaluation_stats
                               number_bins s))) = endpoint_id (self s)"
proof -
  have trained_id: "model_id (self (snd (train env dataset_display_name model_display_name
          predefined_split_column_name target_column optimization_objective
          budget_milli_node_hours s))) = Some (name model)"
    if "fst (train env dataset_display_name model_display_name predefined_split_column_name
          target_column optimization_objective budget_milli_node_hours s) = Inr model" for model
    using that by (auto simp add: train_def Let_def call_eq split: prod.splits sum.splits)
  have deployed_id: "deployed_models (gca_resource model) \<noteq> [] \<and>
       endpoint_id (self (snd (deploy_model env model_id_arg s)))
         = Some (last (split CHR ''/'' (endpoint (hd (deployed_models (gca_resource model))))))"
    if "fst (deploy_model env model_id_arg s) = Inr model" for model
    using that
    by (cases "falsy model_id_arg")
       (auto simp add: deploy_model_def Let_def call_eq split: prod.splits sum.splits list.splits)
  have train_endpoint: "endpoint_id (self (snd (train env dataset_display_name model_display_name
          predefined_split_column_name target_column optimization_objective
          budget_milli_node_hours s))) = endpoint_id (self s)"
    by (subst train_frame) simp
  have deploy_model_id: "model_id (self (snd (deploy_model env model_id_arg s))) = model_id (self s)"
    by (subst deploy_model_frame) simp
  have fe_model: "model_id (self (snd (feature_engineer env transaction_table_name query_type
          write_executed_query_file s))) = model_id (self s)"
    by (simp only: feature_engineer_self) (subst detect_block_frame, simp)
  have fe_endpoint: "endpoint_id (self (snd (feature_engineer env transaction_table_name query_type
          write_executed_query_file s))) = endpoint_id (self s)"
    by (simp only: feature_engineer_self) (subst detect_block_frame, simp)
  show ?thesis
    by (intro conjI allI impI)
       (auto dest: trained_id deployed_id
             simp add: train_endpoint deploy_model_id fe_model fe_endpoint post_init_self
               create_synthetic_data_self run_data_checks_self run_query_self
               batch_predict_self evaluate_model_self)
qed

lemma stub_train:
  "train stub_collaborators None None None None None None (fresh w)
     = (Inr stub_model,
        (fresh w)\<lparr> self := pipeline\<lparr> model_id := Some ''7710'' \<rparr>,
                     calls := [(CreateAutomlDataset ''my-project'' ''my_dataset'' ''training_data''
                                  ''crystalvalue_dataset'' ''europe-west4'', Returned),
                               (TrainAutomlModel ''my-project'' ''dataset-1'' ''crystalvalue_model''
                                  ''predefined_split_column'' ''future_value'' ''minimize-rmse'' 1000
                                  ''europe-west4'', Returned)] \<rparr>)"
  by (simp add: train_def Let_def call_eq stub_collaborators_def supplied_or_def fresh_def
        pipeline_def new_CrystalValue_def outcome_of_def stub_model_def)

lemma stub_deploy:
  "deploy_model stub_collaborators None (trained w)
     = (Inr stub_model,
        (trained w)\<lparr> self := pipeline\<lparr> model_id := Some ''7710'', endpoint_id := Some ''345'' \<rparr>,
                       calls := [(DeployModel \<lparr> project = ''my-project'' \<rparr> (Some ''7710'')
                                    ''europe-west4'', Returned)] \<rparr>)"
  by (simp add: deploy_model_def Let_def call_eq stub_collaborators_def trained_def falsy_def
        pipeline_def new_CrystalValue_def outcome_of_def stub_model_def)

theorem identifiers_persisted_witness:
  "fst (train stub_collaborators None None None None None None (fresh (0::nat) :: (nat, string) state))
     = Inr stub_model
   \<and> model_id (self (snd (train stub_collaborators None None None None None None
                             (fresh (0::nat) :: (nat, string) state)))) = Some ''7710''
   \<and> fst (deploy_model stub_collaborators None (trained (0::nat) :: (nat, string) state))
     = Inr stub_model
   \<and> endpoint_id (self (snd (deploy_model stub_collaborators None
                             (trained (0::nat) :: (nat, string) state)))) = Some ''345''"
proof -
  have t: "fst (train stub_collaborators None None None None None None
                 (fresh (0::nat) :: (nat, string) state)) = Inr stub_model"
    by (simp add: stub_train)
  have d: "fst (deploy_model stub_collaborators None (trained (0::nat) :: (nat, string) state))
             = Inr stub_model"
    by (simp add: stub_deploy)
  note a = identifiers_persisted [THEN conjunct1, THEN spec, THEN mp, OF t]
  note b = identifiers_persisted [THEN conjunct2, THEN conjunct1, THEN spec, THEN mp, OF d]
  have n: "name stub_model = ''7710''"
    and e: "last (split CHR ''/'' (endpoint (hd (deployed_models (gca_resource stub_model))))) = ''345''"
    by (simp_all add: stub_model_def Let_def)
  show ?thesis using t d a b by (simp only: n e simp_thms)
qed

subsection \<open>The first block of \<open>feature_engineer\<close>, case by case\<close>

lemma detect_block_skipped:
  "\<not> falsy (features_types (self s)) \<Longrightarrow> detect_block env transaction_table_name s = (Inr (), s)"
  by (simp add: detect_block_def)

lemma detect_block_type_error:
  assumes "falsy (features_types (self s))"
    and "ignored_for_detection (self s) = Inl message"
  shows "detect_block env transaction_table_name s = (Inl (TypeError message), s)"
  using assms by (simp add: detect_block_def)

lemma detect_block_raises:
  assumes "falsy (features_types (self s))"
    and "ignored_for_detection (self s) = Inr ignored"
    and "feature_engineering_detect_feature_types env (bigquery_client (self s)) (dataset_id (self s))
           transaction_table_name (Some (ListOf ignored)) (world s) = (Inl e, w')"
  shows "detect_block env transaction_table_name s
    = (Inl (Propagated e),
       s\<lparr> self := (self s)\<lparr> ignore_columns := Some (ListOf ignored) \<rparr>,
          world := w',
          calls := calls s @ [(DetectFeatureTypes (bigquery_client (self s)) (dataset_id (self s))
                                 transaction_table_name (Some (ListOf ignored)),
                               Raised e)] \<rparr>)"
  using assms by (simp add: detect_block_def Let_def call_eq outcome_of_def)

lemma detect_block_empty:
  assumes "falsy (features_types (self s))"
    and "ignored_for_detection (self s) = Inr ignored"
    and "feature_engineering_detect_feature_types env (bigquery_client (self s)) (dataset_id (self s))
           transaction_table_name (Some (ListOf ignored)) (world s) = (Inr [], w')"
  shows "detect_block env transaction_table_name s
    = (Inl (ValueError ''No features detected''),
       s\<lparr> self := (self s)\<lparr> ignore_columns := Some (ListOf ignored),
                             features_types := Some [] \<rparr>,
          world := w',
          calls := calls s @ [(DetectFeatureTypes (bigquery_client (self s)) (dataset_id (self s))
                                 transaction_table_name (Some (ListOf ignored)),
                               Returned)] \<rparr>)"
  using assms by (simp add: detect_block_def Let_def call_eq outcome_of_def falsy_def)

lemma detect_block_detects:
  assumes "falsy (features_types (self s))"
    and "ignored_for_detection (self s) = Inr ignored"
    and "feature_engineering_detect_feature_types env (bigquery_client (self s)) (dataset_id (self s))
           transaction_table_name (Some (ListOf ignored)) (world s)
           = (Inr detected, w')"
    and "detected \<noteq> []"
  shows "detect_block env transaction_table_name s
    = (Inr (),
       log_detected detected
        (s\<lparr> world := w',
           calls := calls s @ [(DetectFeatureTypes (bigquery_client (self s)) (dataset_id (self s))
                                  transaction_table_name (Some (ListOf ignored)),
                                Returned)],
           self := (self s)\<lparr> ignore_columns := Some (ListOf ignored),
                              features_types := Some detected \<rparr> \<rparr>))"
  using assms by (simp add: detect_block_def Let_def call_eq outcome_of_def falsy_def)

lemma detect_block_no_value_error:
  "fst (detect_block env transaction_table_name s) = Inl (ValueError msg) \<Longrightarrow>
   ignored_for_detection (self s) = Inr ignored \<Longrightarrow>
   fst (feature_engineering_detect_feature_types env (bigquery_client (self s)) (dataset_id (self s))
          transaction_table_name (Some (ListOf ignored)) (world s)) = Inr []"
  by (auto simp add: detect_block_def Let_def call_eq falsy_def
           split: if_splits prod.splits sum.splits)

lemma feature_engineer_stops:
  "fst (detect_block env transaction_table_name s) = Inl err \<Longrightarrow>
   feature_engineer env transaction_table_name query_type write_executed_query_file s
     = (Inl err, snd (detect_block env transaction_table_name s))"
  by (cases "detect_block env transaction_table_name s")
     (simp add: feature_engineer_def Let_def)

lemma feature_engineer_value_error:
  "fst (feature_engineer env transaction_table_name query_type write_executed_query_file s)
     = Inl (ValueError msg) \<Longrightarrow>
   fst (detect_block env transaction_table_name s) = Inl (ValueError msg)"
  by (cases "detect_block env transaction_table_name s")
     (auto simp add: feature_engineer_def Let_def call_eq run_query_def
           split: prod.splits sum.splits if_splits)

subsection \<open>No features detected\<close>

text \<open>
  Claim C2. In a call of \<open>feature_engineer\<close> with \<open>features_types\<close> falsy that reaches
  the detection (line 233 gave the ignore list \<open>ignored\<close>), when the detector returns the
  empty mapping the call raises \<open>ValueError('No features detected')\<close> and the detector's
  is the only request made: no query is built or run. When the detector returns a
  mapping that is not empty, as one with a classified column is, the call does not raise
  that error.
\<close>

theorem no_features_detected:
  "falsy (features_types (self s)) \<and> ignored_for_detection (self s) = Inr ignored \<longrightarrow>
     (fst (feature_engineering_detect_feature_types env (bigquery_client (self s))
             (dataset_id (self s)) transaction_table_name
             (Some (ListOf ignored)) (world s)) = Inr [] \<longrightarrow>
        fst (feature_engineer env transaction_table_name query_type write_executed_query_file s)
          = Inl (ValueError ''No features detected'')
        \<and> requests_made s
            (snd (feature_engineer env transaction_table_name query_type write_executed_query_file s))
          = [DetectFeatureTypes (bigquery_client (self s)) (dataset_id (self s))
               transaction_table_name (Some (ListOf ignored))])
     \<and> (\<forall>detected.
          fst (feature_engineering_detect_feature_types env (bigquery_client (self s))
                 (dataset_id (self s)) transaction_table_name
                 (Some (ListOf ignored)) (world s)) = Inr detected
          \<and> detected \<noteq> [] \<longrightarrow>
          fst (feature_engineer env transaction_table_name query_type write_executed_query_file s)
            \<noteq> Inl (ValueError ''No features detected''))"
proof (intro impI conjI allI)
  assume "falsy (features_types (self s)) \<and> ignored_for_detection (self s) = Inr ignored"
  then have f: "falsy (features_types (self s))"
    and i: "ignored_for_detection (self s) = Inr ignored"
    by simp_all
  assume e: "fst (feature_engineering_detect_feature_types env (bigquery_client (self s))
             (dataset_id (self s)) transaction_table_name
             (Some (ListOf ignored)) (world s)) = Inr []"
  obtain w' where w: "feature_engineering_detect_feature_types env (bigquery_client (self s))
             (dataset_id (self s)) transaction_table_name
             (Some (ListOf ignored)) (world s) = (Inr [], w')"
    using e by (metis prod.collapse)
  have stop: "feature_engineer env transaction_table_name query_type write_executed_query_file s
                = (Inl (ValueError ''No features detected''),
                   snd (detect_block env transaction_table_name s))"
    by (rule feature_engineer_stops) (simp add: detect_block_empty [OF f i w])
  show "fst (feature_engineer env transaction_table_name query_type write_executed_query_file s)
          = Inl (ValueError ''No features detected'')"
    by (simp add: stop detect_block_empty [OF f i w])
  show "requests_made s
            (snd (feature_engineer env transaction_table_name query_type write_executed_query_file s))
          = [DetectFeatureTypes (bigquery_client (self s)) (dataset_id (self s))
               transaction_table_name (Some (ListOf ignored))]"
    by (simp add: stop detect_block_empty [OF f i w] requests_made_def)
next
  fix detected
  assume "falsy (features_types (self s)) \<and> ignored_for_detection (self s) = Inr ignored"
  then have i: "ignored_for_detection (self s) = Inr ignored"
    by simp
  assume d: "fst (feature_engineering_detect_feature_types env (bigquery_client (self s))
                 (dataset_id (self s)) transaction_table_name
                 (Some (ListOf ignored)) (world s)) = Inr detected
          \<and> detected \<noteq> []"
  show "fst (feature_engineer env transaction_table_name query_type write_executed_query_file s)
            \<noteq> Inl (ValueError ''No features detected'')"
  proof
    assume "fst (feature_engineer env transaction_table_name query_type write_executed_query_file s)
              = Inl (ValueError ''No features detected'')"
    then have "fst (detect_block env transaction_table_name s)
              = Inl (ValueError ''No features detected'')"
      by (rule feature_engineer_value_error)
    then have "fst (feature_engineering_detect_feature_types env (bigquery_client (self s))
                 (dataset_id (self s)) transaction_table_name
                 (Some (ListOf ignored)) (world s)) = Inr []"
      using i by (rule detect_block_no_value_error)
    with d show False by auto
  qed
qed

lemma fresh_fields:
  "bigquery_client (self (fresh w)) = \<lparr> project = ''my-project'' \<rparr>"
  "dataset_id (self (fresh w)) = ''my_dataset''"
  "features_types (self (fresh w)) = None"
  "ignore_columns (self (fresh w)) = None"
  "customer_id_column (self (fresh w)) = ''customer_id''"
  "date_column (self (fresh w)) = ''date''"
  "world (fresh w) = w"
  by (simp_all add: fresh_def pipeline_def new_CrystalValue_def)

lemma fresh_ignored: "ignored_for_detection (self (fresh w)) = Inr [''customer_id'', ''date'']"
  by (simp add: ignored_for_detection_def fresh_fields)

theorem no_features_detected_witness:
  "falsy (features_types (self (fresh (0::nat) :: (nat, string) state)))
   \<and> ignored_for_detection (self (fresh (0::nat) :: (nat, string) state))
       = Inr [''customer_id'', ''date'']
   \<and> fst (feature_engineer blind_collaborators ''transactions'' None None
             (fresh (0::nat) :: (nat, string) state))
       = Inl (ValueError ''No features detected'')
   \<and> requests_made (fresh (0::nat) :: (nat, string) state)
        (snd (feature_engineer blind_collaborators ''transactions'' None None (fresh 0)))
       = [DetectFeatureTypes \<lparr> project = ''my-project'' \<rparr> ''my_dataset'' ''transactions''
            (Some (ListOf [''customer_id'', ''date'']))]
   \<and> fst (feature_engineer stub_collaborators ''transactions'' None None
             (fresh (0::nat) :: (nat, string) state))
       \<noteq> Inl (ValueError ''No features detected'')"
proof -
  let ?s = "fresh (0::nat) :: (nat, string) state"
  have f: "falsy (features_types (self ?s))"
    by (simp add: fresh_fields falsy_def)
  have i: "ignored_for_detection (self ?s) = Inr [''customer_id'', ''date'']"
    by (rule fresh_ignored)
  have fi: "falsy (features_types (self ?s))
            \<and> ignored_for_detection (self ?s) = Inr [''customer_id'', ''date'']"
    using f i by (rule conjI)
  have e: "fst (feature_engineering_detect_feature_types blind_collaborators (bigquery_client (self ?s))
             (dataset_id (self ?s)) ''transactions''
             (Some (ListOf [''customer_id'', ''date''])) (world ?s)) = Inr []"
    by (simp add: blind_collaborators_def)
  have d: "fst (feature_engineering_detect_feature_types stub_collaborators (bigquery_client (self ?s))
             (dataset_id (self ?s)) ''transactions''
             (Some (ListOf [''customer_id'', ''date''])) (world ?s))
             = Inr [(''numeric'', [''value'']), (''string_or_categorical'', [''country''])]
           \<and> [(''numeric'', [''value'']), (''string_or_categorical'', [''country''])] \<noteq> []"
    by (simp add: stub_collaborators_def stub_detect_def)
  note a = no_features_detected [where s = ?s and env = blind_collaborators
      and transaction_table_name = "''transactions''" and query_type = None
      and write_executed_query_file = None and ignored = "[''customer_id'', ''date'']",
      THEN mp, OF fi, THEN conjunct1, THEN mp, OF e]
  note b = no_features_detected [where s = ?s and env = stub_collaborators
      and transaction_table_name = "''transactions''" and query_type = None
      and write_executed_query_file = None and ignored = "[''customer_id'', ''date'']",
      THEN mp, OF fi, THEN conjunct2, THEN spec, THEN mp, OF d]
  show ?thesis using f i a b by (simp only: fresh_fields simp_thms)
qed

subsection \<open>What the first block leaves for the rest of \<open>feature_engineer\<close>\<close>

lemma detect_block_fields:
  "bigquery_client (self (snd (detect_block env transaction_table_name s))) = bigquery_client (self s)"
  "dataset_id (self (snd (detect_block env transaction_table_name s))) = dataset_id (self s)"
  "training_table_name (self (snd (detect_block env transaction_table_name s)))
     = training_table_name (self s)"
  "predict_table_name (self (snd (detect_block env transaction_table_name s)))
     = predict_table_name (self s)"
  "location (self (snd (detect_block env transaction_table_name s))) = location (self s)"
  "customer_id_column (self (snd (detect_block env transaction_table_name s)))
     = customer_id_column (self s)"
  "date_column (self (snd (detect_block env transaction_table_name s))) = date_column (self s)"
  by (simp_all add: detect_block_def Let_def call_eq split: prod.splits sum.splits)

lemma detect_block_requests:
  "\<exists>made. calls (snd (detect_block env transaction_table_name s)) = calls s @ made
          \<and> filter is_run_query (map fst made) = []
          \<and> filter is_build_query (map fst made) = []"
  by (simp add: detect_block_def Let_def call_eq split: prod.splits sum.splits)


lemma detect_block_bound:
  "fst (detect_block env transaction_table_name s) \<noteq> Inl (UnboundLocalError v)"
  by (simp add: detect_block_def Let_def call_eq split: prod.splits sum.splits)

lemma feature_engineer_bound:
  assumes "supplied_or ''train_query'' query_type = ''train_query''
           \<or> supplied_or ''train_query'' query_type = ''predict_query''"
  shows "fst (feature_engineer env transaction_table_name query_type write_executed_query_file s)
           \<noteq> Inl (UnboundLocalError v)"
proof (cases "detect_block env transaction_table_name s")
  case (Pair r s1)
  have "r \<noteq> Inl (UnboundLocalError v)"
    using detect_block_bound [of env transaction_table_name s v] by (simp add: Pair)
  then show ?thesis
    using assms
    by (auto simp add: feature_engineer_def Let_def call_eq run_query_def Pair
             split: prod.splits sum.splits)
qed

lemma feature_engineer_built:
  assumes d: "fst (detect_block env transaction_table_name s) = Inr ()"
    and b: "fst (build_query_answer env transaction_table_name query_type write_executed_query_file
                   (snd (detect_block env transaction_table_name s))) = Inr query"
  shows "(supplied_or ''train_query'' query_type = ''train_query'' \<longrightarrow>
            filter is_run_query (requests_made s
                (snd (feature_engineer env transaction_table_name query_type
                        write_executed_query_file s)))
              = [RunQuery (bigquery_client (self s)) (Some query) None (dataset_id (self s))
                   (training_table_name (self s)) (location (self s))])
       \<and> (supplied_or ''train_query'' query_type = ''predict_query'' \<longrightarrow>
            filter is_run_query (requests_made s
                (snd (feature_engineer env transaction_table_name query_type
                        write_executed_query_file s)))
              = [RunQuery (bigquery_client (self s)) (Some query) None (dataset_id (self s))
                   (predict_table_name (self s)) (location (self s))])
       \<and> (supplied_or ''train_query'' query_type \<noteq> ''train_query''
            \<and> supplied_or ''train_query'' query_type \<noteq> ''predict_query'' \<longrightarrow>
            fst (feature_engineer env transaction_table_name query_type write_executed_query_file s)
              = Inl (UnboundLocalError ''table_name'')
            \<and> filter is_run_query (requests_made s
                (snd (feature_engineer env transaction_table_name query_type
                        write_executed_query_file s))) = []
            \<and> length (filter is_build_query (requests_made s
                (snd (feature_engineer env transaction_table_name query_type
                        write_executed_query_file s)))) = 1)"
proof -
  obtain s1 where db: "detect_block env transaction_table_name s = (Inr (), s1)"
    using d by (cases "detect_block env transaction_table_name s") simp
  obtain made where made: "calls s1 = calls s @ made"
      "filter is_run_query (map fst made) = []" "filter is_build_query (map fst made) = []"
    using detect_block_requests [of env transaction_table_name s] by (auto simp add: db)
  have fields: "bigquery_client (self s1) = bigquery_client (self s)"
      "dataset_id (self s1) = dataset_id (self s)"
      "training_table_name (self s1) = training_table_name (self s)"
      "predict_table_name (self s1) = predict_table_name (self s)"
      "location (self s1) = location (self s)"
    using detect_block_fields [of env transaction_table_name s] by (simp_all add: db)
  have b': "fst (feature_engineering_build_query env (supplied_or ''train_query'' query_type)
       (bigquery_client (self s)) (dataset_id (self s)) transaction_table_name
       (features_types (self s1)) write_executed_query_file (days_lookback (self s1))
       (days_lookahead (self s1)) (customer_id_column (self s1)) (date_column (self s1))
       (value_column (self s1)) (world s1)) = Inr query"
    using b by (simp add: build_query_answer_def db fields)
  show ?thesis
    using b' made fields
    by (auto simp add: feature_engineer_def Let_def call_eq run_query_def requests_made_def db
             split: prod.splits sum.splits)
qed

subsection \<open>The destination table\<close>

text \<open>
  Claim C8. The dispatch of lines 258 to 261 assigns \<open>table_name\<close> for two query types
  only. Once the first block of \<open>feature_engineer\<close> has passed and the query is built:
  for \<open>'train_query'\<close> the query is run into \<open>training_table_name\<close>, for
  \<open>'predict_query'\<close> into \<open>predict_table_name\<close>, and for every other query type the
  call ends with \<open>UnboundLocalError\<close> on \<open>table_name\<close>, after the one query-building
  request and with no query run. With one of the two recognised query types the call never
  ends with an \<open>UnboundLocalError\<close>.
\<close>

theorem table_dispatch:
  "(supplied_or ''train_query'' query_type = ''train_query''
      \<or> supplied_or ''train_query'' query_type = ''predict_query'' \<longrightarrow>
      (\<forall>v. fst (feature_engineer env transaction_table_name query_type write_executed_query_file s)
              \<noteq> Inl (UnboundLocalError v)))
   \<and> (fst (detect_block env transaction_table_name s) = Inr ()
      \<and> fst (build_query_answer env transaction_table_name query_type write_executed_query_file
                (snd (detect_block env transaction_table_name s))) = Inr query \<longrightarrow>
        (supplied_or ''train_query'' query_type = ''train_query'' \<longrightarrow>
            filter is_run_query (requests_made s
                (snd (feature_engineer env transaction_table_name query_type
                        write_executed_query_file s)))
              = [RunQuery (bigquery_client (self s)) (Some query) None (dataset_id (self s))
                   (training_table_name (self s)) (location (self s))])
      \<and> (supplied_or ''train_query'' query_type = ''predict_query'' \<longrightarrow>
            filter is_run_query (requests_made s
                (snd (feature_engineer env transaction_table_name query_type
                        write_executed_query_file s)))
              = [RunQuery (bigquery_client (self s)) (Some query) None (dataset_id (self s))
                   (predict_table_name (self s)) (location (self s))])
      \<and> (supplied_or ''train_query'' query_type \<noteq> ''train_query''
            \<and> supplied_or ''train_query'' query_type \<noteq> ''predict_query'' \<longrightarrow>
            fst (feature_engineer env transaction_table_name query_type write_executed_query_file s)
              = Inl (UnboundLocalError ''table_name'')
            \<and> filter is_run_query (requests_made s
                (snd (feature_engineer env transaction_table_name query_type
                        write_executed_query_file s))) = []
            \<and> length (filter is_build_query (requests_made s
                (snd (feature_engineer env transaction_table_name query_type
                        write_executed_query_file s)))) = 1))"
proof (intro conjI)
  show "supplied_or ''train_query'' query_type = ''train_query''
      \<or> supplied_or ''train_query'' query_type = ''predict_query'' \<longrightarrow>
      (\<forall>v. fst (feature_engineer env transaction_table_name query_type write_executed_query_file s)
              \<noteq> Inl (UnboundLocalError v))"
    using feature_engineer_bound by blast
next
  show "fst (detect_block env transaction_table_name s) = Inr ()
      \<and> fst (build_query_answer env transaction_table_name query_type write_executed_query_file
                (snd (detect_block env transaction_table_name s))) = Inr query \<longrightarrow>
        (supplied_or ''train_query'' query_type = ''train_query'' \<longrightarrow>
            filter is_run_query (requests_made s
                (snd (feature_engineer env transaction_table_name query_type
                        write_executed_query_file s)))
              = [RunQuery (bigquery_client (self s)) (Some query) None (dataset_id (self s))
                   (training_table_name (self s)) (location (self s))])
      \<and> (supplied_or ''train_query'' query_type = ''predict_query'' \<longrightarrow>
            filter is_run_query (requests_made s
                (snd (feature_engineer env transaction_table_name query_type
                        write_executed_query_file s)))
              = [RunQuery (bigquery_client (self s)) (Some query) None (dataset_id (self s))
                   (predict_table_name (self s)) (location (self s))])
      \<and> (supplied_or ''train_query'' query_type \<noteq> ''train_query''
            \<and> supplied_or ''train_query'' query_type \<noteq> ''predict_query'' \<longrightarrow>
            fst (feature_engineer env transaction_table_name query_type write_executed_query_file s)
              = Inl (UnboundLocalError ''table_name'')
            \<and> filter is_run_query (requests_made s
                (snd (feature_engineer env transaction_table_name query_type
                        write_executed_query_file s))) = []
            \<and> length (filter is_build_query (requests_made s
                (snd (feature_engineer env transaction_table_name query_type
                        write_executed_query_file s)))) = 1)"
    by (rule impI, erule conjE, rule feature_engineer_built)
qed

lemma stub_detect_block:
  "fst (detect_block stub_collaborators ''transactions'' (fresh w)) = Inr ()"
  by (simp add: detect_block_def Let_def call_eq fresh_fields fresh_ignored falsy_def
        stub_collaborators_def stub_detect_def)

lemma stub_build_query:
  "fst (build_query_answer stub_collaborators transaction_table_name query_type
          write_executed_query_file s1) = Inr ''SELECT 1''"
  by (simp add: build_query_answer_def stub_collaborators_def)

lemma fresh_tables:
  "training_table_name (self (fresh w)) = ''training_data''"
  "predict_table_name (self (fresh w)) = ''predict_features_data''"
  "location (self (fresh w)) = ''europe-west4''"
  by (simp_all add: fresh_def pipeline_def new_CrystalValue_def)

theorem table_dispatch_witness:
  "filter is_run_query (requests_made (fresh (0::nat) :: (nat, string) state)
      (snd (feature_engineer stub_collaborators ''transactions'' None None (fresh 0))))
     = [RunQuery \<lparr> project = ''my-project'' \<rparr> (Some ''SELECT 1'') None ''my_dataset''
          ''training_data'' ''europe-west4'']
   \<and> filter is_run_query (requests_made (fresh (0::nat) :: (nat, string) state)
      (snd (feature_engineer stub_collaborators ''transactions'' (Some ''predict_query'') None
              (fresh 0))))
     = [RunQuery \<lparr> project = ''my-project'' \<rparr> (Some ''SELECT 1'') None ''my_dataset''
          ''predict_features_data'' ''europe-west4'']
   \<and> fst (feature_engineer stub_collaborators ''transactions'' (Some ''test_query'') None
             (fresh (0::nat) :: (nat, string) state))
       = Inl (UnboundLocalError ''table_name'')
   \<and> filter is_run_query (requests_made (fresh (0::nat) :: (nat, string) state)
      (snd (feature_engineer stub_collaborators ''transactions'' (Some ''test_query'') None
              (fresh 0)))) = []
   \<and> fst (feature_engineer stub_collaborators ''transactions'' None None
             (fresh (0::nat) :: (nat, string) state))
       \<noteq> Inl (UnboundLocalError ''table_name'')"
proof -
  let ?s = "fresh (0::nat) :: (nat, string) state"
  have h: "fst (detect_block stub_collaborators ''transactions'' ?s) = Inr ()
      \<and> fst (build_query_answer stub_collaborators ''transactions'' query_type None
                (snd (detect_block stub_collaborators ''transactions'' ?s))) = Inr ''SELECT 1''"
    for query_type
    by (simp only: stub_detect_block stub_build_query simp_thms)
  have t: "supplied_or ''train_query'' None = ''train_query''"
    and p: "supplied_or ''train_query'' (Some ''predict_query'') = ''predict_query''"
    and o: "supplied_or ''train_query'' (Some ''test_query'') \<noteq> ''train_query''
            \<and> supplied_or ''train_query'' (Some ''test_query'') \<noteq> ''predict_query''"
    by (simp_all add: supplied_or_def)
  note a = table_dispatch [where s = ?s and env = stub_collaborators
      and transaction_table_name = "''transactions''" and query_type = None
      and write_executed_query_file = None and query = "''SELECT 1''",
      THEN conjunct2, THEN mp, OF h, THEN conjunct1, THEN mp, OF t]
  note b = table_dispatch [where s = ?s and env = stub_collaborators
      and transaction_table_name = "''transactions''" and query_type = "Some ''predict_query''"
      and write_executed_query_file = None and query = "''SELECT 1''",
      THEN conjunct2, THEN mp, OF h, THEN conjunct2, THEN conjunct1, THEN mp, OF p]
  note c = table_dispatch [where s = ?s and env = stub_collaborators
      and transaction_table_name = "''transactions''" and query_type = "Some ''test_query''"
      and write_executed_query_file = None and query = "''SELECT 1''",
      THEN conjunct2, THEN mp, OF h, THEN conjunct2, THEN conjunct2, THEN mp, OF o]
  note d = table_dispatch [where s = ?s and env = stub_collaborators
      and transaction_table_name = "''transactions''" and query_type = None
      and write_executed_query_file = None and query = "''SELECT 1''",
      THEN conjunct1, THEN mp, OF disjI1, OF t, THEN spec, of "''table_name''"]
  show ?thesis using a b c d by (simp only: fresh_fields fresh_tables simp_thms)
qed

subsection \<open>The ignore list of the detection\<close>













subsection \<open>What the detection changes of the configuration\<close>




subsection \<open>Failures of the collaborators\<close>

lemma terminal_failures_last:
  "terminal_failures made r \<Longrightarrow> made = before @ (req, Raised e) # after \<Longrightarrow>
   after = [] \<and> r = Inl (Propagated e)"
proof (induction made r arbitrary: before rule: terminal_failures.induct)
  case (1 r)
  then show ?case by simp
next
  case (2 req' made r)
  then show ?case by (cases before) auto
next
  case (3 req' e' made r)
  then show ?case by (cases before) auto
qed

lemma failures_propagate_made:
  assumes "take (length (calls s)) (calls (snd out)) = calls s"
    and "terminal_failures (drop (length (calls s)) (calls (snd out))) (fst out)"
  shows "failures_propagate s out"
proof -
  have "calls (snd out) = calls s @ drop (length (calls s)) (calls (snd out))"
    using assms(1) append_take_drop_id [of "length (calls s)" "calls (snd out)"] by simp
  then show ?thesis
    unfolding failures_propagate_def
    using terminal_failures_last [OF assms(2)] by blast
qed

lemma create_synthetic_data_propagates:
  "failures_propagate s (create_synthetic_data env table_name row_count start_date end_date s)"
  by (rule failures_propagate_made;
      simp add: create_synthetic_data_def Let_def call_eq outcome_of_def
           split: prod.splits sum.splits)

lemma run_data_checks_propagates:
  "failures_propagate s
     (run_data_checks env transaction_table_name round_decimal_places summary_table_name s)"
  by (rule failures_propagate_made;
      simp add: run_data_checks_def Let_def call_eq outcome_of_def split: prod.splits sum.splits)

lemma run_query_propagates:
  "failures_propagate s (run_query env destination_table_name query_sql query_file s)"
  by (rule failures_propagate_made;
      simp add: run_query_def Let_def call_eq outcome_of_def split: prod.splits sum.splits)

lemma feature_engineer_propagates:
  "failures_propagate s
     (feature_engineer env transaction_table_name query_type write_executed_query_file s)"
proof (cases "falsy (features_types (self s))")
  case False
  note db = detect_block_skipped [OF False, of env transaction_table_name]
  show ?thesis
    by (rule failures_propagate_made;
        simp add: feature_engineer_def db run_query_def Let_def call_eq outcome_of_def
             split: prod.splits sum.splits)
next
  case True
  show ?thesis
  proof (cases "ignored_for_detection (self s)")
    case (Inl message)
    note db = detect_block_type_error [OF True Inl, of env transaction_table_name]
    show ?thesis
      by (rule failures_propagate_made; simp add: feature_engineer_def db)
  next
    case i: (Inr ignored)
    obtain r w' where a: "feature_engineering_detect_feature_types env (bigquery_client (self s))
        (dataset_id (self s)) transaction_table_name (Some (ListOf ignored)) (world s)
        = (r, w')"
      by (cases "feature_engineering_detect_feature_types env (bigquery_client (self s))
        (dataset_id (self s)) transaction_table_name (Some (ListOf ignored)) (world s)")
    show ?thesis
    proof (cases r)
      case (Inl e)
      note db = detect_block_raises [OF True i a [unfolded Inl]]
      show ?thesis
        by (rule failures_propagate_made; simp add: feature_engineer_def db)
    next
      case (Inr detected)
      show ?thesis
      proof (cases "detected = []")
        case True
        note db = detect_block_empty [OF \<open>falsy (features_types (self s))\<close> i
            a [unfolded Inr True]]
        show ?thesis
          by (rule failures_propagate_made; simp add: feature_engineer_def db)
      next
        case False
        note db = detect_block_detects [OF \<open>falsy (features_types (self s))\<close> i
            a [unfolded Inr] False]
        show ?thesis
          by (rule failures_propagate_made;
              simp add: feature_engineer_def db run_query_def Let_def call_eq outcome_of_def
                   split: prod.splits sum.splits)
      qed
    qed
  qed
qed

lemma train_propagates:
  "failures_propagate s
     (train env dataset_display_name model_display_name predefined_split_column_name
        target_column optimization_objective budget_milli_node_hours s)"
  by (rule failures_propagate_made;
      simp add: train_def Let_def call_eq outcome_of_def split: prod.splits sum.splits)

lemma batch_predict_propagates:
  "failures_propagate s
     (batch_predict env input_table_name model_id_arg model_name destination_table s)"
  by (rule failures_propagate_made;
      simp add: batch_predict_def Let_def call_eq outcome_of_def split: prod.splits sum.splits)

lemma deploy_model_propagates:
  "failures_propagate s (deploy_model env model_id_arg s)"
  by (rule failures_propagate_made;
      simp add: deploy_model_def Let_def call_eq outcome_of_def
           split: prod.splits sum.splits list.splits)

lemma evaluate_model_propagates:
  "failures_propagate s
     (evaluate_model env endpoint_id_arg table_evaluation_stats number_bins s)"
  by (rule failures_propagate_made;
      simp add: evaluate_model_def Let_def call_eq outcome_of_def split: prod.splits sum.splits)

text \<open>
  Claim C7. In every method that calls a collaborator, when a call raises an error \<open>e\<close>
  the method makes no further call and ends with that same \<open>e\<close>: it is not caught, not
  retried and not replaced by another error.
\<close>

theorem collaborator_failures_propagate:
  "failures_propagate s (create_synthetic_data env table_name row_count start_date end_date s)
   \<and> failures_propagate s
       (run_data_checks env transaction_table_name round_decimal_places summary_table_name s)
   \<and> failures_propagate s
       (feature_engineer env transaction_table_name query_type write_executed_query_file s)
   \<and> failures_propagate s (run_query env destination_table_name query_sql query_file s)
   \<and> failures_propagate s
       (train env dataset_display_name model_display_name predefined_split_column_name
          target_column optimization_objective budget_milli_node_hours s)
   \<and> failures_propagate s
       (batch_predict env input_table_name model_id_arg model_name destination_table s)
   \<and> failures_propagate s (deploy_model env model_id_arg s)
   \<and> failures_propagate s
       (evaluate_model env endpoint_id_arg table_evaluation_stats number_bins s)"
  by (intro conjI create_synthetic_data_propagates run_data_checks_propagates
        feature_engineer_propagates run_query_propagates train_propagates
        batch_predict_propagates deploy_model_propagates evaluate_model_propagates)

lemma failing_training_calls:
  "calls (snd (train failing_training None None None None None None (fresh w)))
     = [(CreateAutomlDataset ''my-project'' ''my_dataset'' ''training_data''
           ''crystalvalue_dataset'' ''europe-west4'', Returned),
        (TrainAutomlModel ''my-project'' ''dataset-1'' ''crystalvalue_model''
           ''predefined_split_column'' ''future_value'' ''minimize-rmse'' 1000 ''europe-west4'',
         Raised ''quota exceeded'')]"
  by (simp add: train_def Let_def call_eq outcome_of_def supplied_or_def failing_training_def
        stub_collaborators_def fresh_def pipeline_def new_CrystalValue_def)

theorem collaborator_failures_propagate_witness:
  "calls (snd (train failing_training None None None None None None
                 (fresh (0::nat) :: (nat, string) state)))
     = [(CreateAutomlDataset ''my-project'' ''my_dataset'' ''training_data''
           ''crystalvalue_dataset'' ''europe-west4'', Returned),
        (TrainAutomlModel ''my-project'' ''dataset-1'' ''crystalvalue_model''
           ''predefined_split_column'' ''future_value'' ''minimize-rmse'' 1000 ''europe-west4'',
         Raised ''quota exceeded'')]
   \<and> fst (train failing_training None None None None None None
            (fresh (0::nat) :: (nat, string) state))
       = Inl (Propagated ''quota exceeded'')"
proof -
  let ?s = "fresh (0::nat) :: (nat, string) state"
  let ?out = "train failing_training None None None None None None ?s"
  note t = collaborator_failures_propagate [where s = ?s and env = failing_training
      and dataset_display_name = None and model_display_name = None
      and predefined_split_column_name = None and target_column = None
      and optimization_objective = None and budget_milli_node_hours = None,
      THEN conjunct2, THEN conjunct2, THEN conjunct2, THEN conjunct2, THEN conjunct1]
  have c: "calls (snd ?out)
     = [(CreateAutomlDataset ''my-project'' ''my_dataset'' ''training_data''
           ''crystalvalue_dataset'' ''europe-west4'', Returned),
        (TrainAutomlModel ''my-project'' ''dataset-1'' ''crystalvalue_model''
           ''predefined_split_column'' ''future_value'' ''minimize-rmse'' 1000 ''europe-west4'',
         Raised ''quota exceeded'')]"
    by (rule failing_training_calls)
  obtain made where m: "calls (snd ?out) = calls ?s @ made"
    and a: "\<And>before req e after. made = before @ (req, Raised e) # after
              \<Longrightarrow> after = [] \<and> fst ?out = Inl (Propagated e)"
    using t unfolding failures_propagate_def by blast
  have "calls ?s = []"
    by (simp add: fresh_def)
  with m c have "made = [(CreateAutomlDataset ''my-project'' ''my_dataset'' ''training_data''
           ''crystalvalue_dataset'' ''europe-west4'', Returned)]
        @ (TrainAutomlModel ''my-project'' ''dataset-1'' ''crystalvalue_model''
           ''predefined_split_column'' ''future_value'' ''minimize-rmse'' 1000 ''europe-west4'',
           Raised ''quota exceeded'') # []"
    by simp
  from a [OF this] have "fst ?out = Inl (Propagated ''quota exceeded'')"
    by simp
  with c show ?thesis by simp
qed

subsection \<open>The query executor's precondition\<close>

lemma run_query_spec_result:
  assumes "feature_engineering_run_query env = feature_engineering_run_query_spec sv"
  shows "fst (run_query env destination_table_name query_sql query_file s)
           = (case fst (feature_engineering_run_query_spec sv (bigquery_client (self s)) query_sql
                          query_file (dataset_id (self s)) destination_table_name (location (self s))
                          (world s)) of
                Inl e \<Rightarrow> Inl (Propagated e) | Inr rows \<Rightarrow> Inr rows)"
    and "world (snd (run_query env destination_table_name query_sql query_file s))
           = snd (feature_engineering_run_query_spec sv (bigquery_client (self s)) query_sql
                    query_file (dataset_id (self s)) destination_table_name (location (self s))
                    (world s))"
  using assms by (simp_all add: run_query_def Let_def call_eq split: prod.splits sum.splits)

lemma execute_into_cases:
  "fst (execute_into sv client sql dataset destination_table_name loc w)
     = (case evaluate_query sv client sql loc w of
          Inl x \<Rightarrow> Inl (ServiceError x) | Inr rows \<Rightarrow> Inr rows)"
  "fst (execute_into sv client sql dataset destination_table_name loc w) = Inr rows \<Longrightarrow>
   tables (snd (execute_into sv client sql dataset destination_table_name loc w))
     (dataset, destination_table_name) = Some rows"
  by (simp_all add: execute_into_def split: sum.splits)

text \<open>
  Claim C1. With the query executor as section 4.3 of the specification describes it,
  a call of \<open>run_query\<close> with both \<open>query_sql\<close> and \<open>query_file\<close>, or with neither, ends
  with the executor's precondition error and leaves the warehouse as it was. With exactly
  one of the two the call never ends with a precondition error; whenever it returns rows,
  the destination table of the dataset holds these rows; and it does return the rows of
  the query when the query evaluates (and, for a query file, the file can be read).
\<close>

theorem run_query_precondition:
  "feature_engineering_run_query env = feature_engineering_run_query_spec sv \<longrightarrow>
     ((query_sql = None) = (query_file = None) \<longrightarrow>
        (\<exists>message. fst (run_query env destination_table_name query_sql query_file s)
                      = Inl (Propagated (PreconditionError message)))
        \<and> world (snd (run_query env destination_table_name query_sql query_file s)) = world s)
   \<and> ((query_sql = None) \<noteq> (query_file = None) \<longrightarrow>
        (\<forall>message. fst (run_query env destination_table_name query_sql query_file s)
                      \<noteq> Inl (Propagated (PreconditionError message)))
        \<and> (\<forall>rows. fst (run_query env destination_table_name query_sql query_file s) = Inr rows \<longrightarrow>
              tables (world (snd (run_query env destination_table_name query_sql query_file s)))
                (dataset_id (self s), destination_table_name) = Some rows)
        \<and> (\<forall>sql rows.
              query_sql = Some sql
              \<and> evaluate_query sv (bigquery_client (self s)) sql (location (self s)) (world s)
                  = Inr rows \<longrightarrow>
              fst (run_query env destination_table_name query_sql query_file s) = Inr rows)
        \<and> (\<forall>path sql rows.
              query_file = Some path \<and> read_query_file sv path = Inr sql
              \<and> evaluate_query sv (bigquery_client (self s)) sql (location (self s)) (world s)
                  = Inr rows \<longrightarrow>
              fst (run_query env destination_table_name query_sql query_file s) = Inr rows))"
proof (intro impI conjI allI)
  assume h: "feature_engineering_run_query env = feature_engineering_run_query_spec sv"
    and b: "(query_sql = None) = (query_file = None)"
  show "\<exists>message. fst (run_query env destination_table_name query_sql query_file s)
                      = Inl (Propagated (PreconditionError message))"
    using b
    by (cases query_sql; cases query_file)
       (simp_all add: run_query_spec_result [OF h] feature_engineering_run_query_spec_def)
  show "world (snd (run_query env destination_table_name query_sql query_file s)) = world s"
    using b
    by (cases query_sql; cases query_file)
       (simp_all add: run_query_spec_result [OF h] feature_engineering_run_query_spec_def)
next
  fix message
  assume h: "feature_engineering_run_query env = feature_engineering_run_query_spec sv"
    and o: "(query_sql = None) \<noteq> (query_file = None)"
  show "fst (run_query env destination_table_name query_sql query_file s)
                      \<noteq> Inl (Propagated (PreconditionError message))"
    using o
    by (cases query_sql; cases query_file)
       (simp_all add: run_query_spec_result [OF h] feature_engineering_run_query_spec_def
          execute_into_cases split: sum.splits)
next
  fix rows
  assume h: "feature_engineering_run_query env = feature_engineering_run_query_spec sv"
    and o: "(query_sql = None) \<noteq> (query_file = None)"
    and r: "fst (run_query env destination_table_name query_sql query_file s) = Inr rows"
  show "tables (world (snd (run_query env destination_table_name query_sql query_file s)))
                (dataset_id (self s), destination_table_name) = Some rows"
    using o r
    by (cases query_sql; cases query_file)
       (auto simp add: run_query_spec_result [OF h] feature_engineering_run_query_spec_def
          execute_into_def split: sum.splits)
next
  fix sql rows
  assume h: "feature_engineering_run_query env = feature_engineering_run_query_spec sv"
    and o: "(query_sql = None) \<noteq> (query_file = None)"
    and q: "query_sql = Some sql
              \<and> evaluate_query sv (bigquery_client (self s)) sql (location (self s)) (world s)
                  = Inr rows"
  show "fst (run_query env destination_table_name query_sql query_file s) = Inr rows"
    using o q
    by (cases query_file)
       (simp_all add: run_query_spec_result [OF h] feature_engineering_run_query_spec_def
          execute_into_cases)
next
  fix path sql rows
  assume h: "feature_engineering_run_query env = feature_engineering_run_query_spec sv"
    and o: "(query_sql = None) \<noteq> (query_file = None)"
    and q: "query_file = Some path \<and> read_query_file sv path = Inr sql
              \<and> evaluate_query sv (bigquery_client (self s)) sql (location (self s)) (world s)
                  = Inr rows"
  show "fst (run_query env destination_table_name query_sql query_file s) = Inr rows"
    using o q
    by (cases query_sql)
       (simp_all add: run_query_spec_result [OF h] feature_engineering_run_query_spec_def
          execute_into_cases)
qed

lemma warehouse_run:
  "feature_engineering_run_query warehouse_collaborators
     = feature_engineering_run_query_spec stub_services"
  by (simp add: warehouse_collaborators_def)

lemma stub_services_simps:
  "read_query_file stub_services ''query.sql'' = Inr ''SELECT 1''"
  "evaluate_query stub_services client ''SELECT 1'' loc w = Inr [[''1'']]"
  by (simp_all add: stub_services_def)

theorem run_query_precondition_witness:
  "(\<exists>message. fst (run_query warehouse_collaborators ''features'' (Some ''SELECT 1'')
                     (Some ''query.sql'') (fresh empty_warehouse))
       = Inl (Propagated (PreconditionError message)))
   \<and> world (snd (run_query warehouse_collaborators ''features'' (Some ''SELECT 1'')
                    (Some ''query.sql'') (fresh empty_warehouse))) = empty_warehouse
   \<and> (\<exists>message. fst (run_query warehouse_collaborators ''features'' None None
                       (fresh empty_warehouse))
       = Inl (Propagated (PreconditionError message)))
   \<and> fst (run_query warehouse_collaborators ''features'' (Some ''SELECT 1'') None
            (fresh empty_warehouse)) = Inr [[''1'']]
   \<and> tables (world (snd (run_query warehouse_collaborators ''features'' (Some ''SELECT 1'') None
                            (fresh empty_warehouse))))
        (''my_dataset'', ''features'') = Some [[''1'']]
   \<and> fst (run_query warehouse_collaborators ''features'' None (Some ''query.sql'')
            (fresh empty_warehouse)) = Inr [[''1'']]"
proof -
  let ?s = "fresh empty_warehouse :: (warehouse, string run_query_error) state"
  note h = warehouse_run
  have both: "((Some ''SELECT 1'' :: string option) = None) = ((Some ''query.sql'' :: string option) = None)"
    and neither: "((None :: string option) = None) = ((None :: string option) = None)"
    and onlysql: "((Some ''SELECT 1'' :: string option) = None) \<noteq> ((None :: string option) = None)"
    and onlyfile: "((None :: string option) = None) \<noteq> ((Some ''query.sql'' :: string option) = None)"
    by simp_all
  note a = run_query_precondition [where env = warehouse_collaborators and sv = stub_services
      and s = ?s and destination_table_name = "''features''"
      and query_sql = "Some ''SELECT 1''" and query_file = "Some ''query.sql''",
      THEN mp, OF h, THEN conjunct1, THEN mp, OF both]
  note b = run_query_precondition [where env = warehouse_collaborators and sv = stub_services
      and s = ?s and destination_table_name = "''features''"
      and query_sql = None and query_file = None,
      THEN mp, OF h, THEN conjunct1, THEN mp, OF neither, THEN conjunct1]
  note c = run_query_precondition [where env = warehouse_collaborators and sv = stub_services
      and s = ?s and destination_table_name = "''features''"
      and query_sql = "Some ''SELECT 1''" and query_file = None,
      THEN mp, OF h, THEN conjunct2, THEN mp, OF onlysql]
  have q: "Some ''SELECT 1'' = Some ''SELECT 1''
              \<and> evaluate_query stub_services (bigquery_client (self ?s)) ''SELECT 1''
                   (location (self ?s)) (world ?s) = Inr [[''1'']]"
    by (simp add: stub_services_simps)
  note c1 = c [THEN conjunct2, THEN conjunct2, THEN conjunct1, THEN spec, THEN spec, THEN mp, OF q]
  note c2 = c [THEN conjunct2, THEN conjunct1, THEN spec, THEN mp, OF c1]
  note d = run_query_precondition [where env = warehouse_collaborators and sv = stub_services
      and s = ?s and destination_table_name = "''features''"
      and query_sql = None and query_file = "Some ''query.sql''",
      THEN mp, OF h, THEN conjunct2, THEN mp, OF onlyfile]
  have p: "Some ''query.sql'' = Some ''query.sql''
              \<and> read_query_file stub_services ''query.sql'' = Inr ''SELECT 1''
              \<and> evaluate_query stub_services (bigquery_client (self ?s)) ''SELECT 1''
                   (location (self ?s)) (world ?s) = Inr [[''1'']]"
    by (simp add: stub_services_simps)
  note d1 = d [THEN conjunct2, THEN conjunct2, THEN conjunct2, THEN spec, THEN spec, THEN spec,
      THEN mp, OF p]
  show ?thesis
    using a b c1 c2 d1 by (simp only: fresh_fields simp_thms)
qed

subsection \<open>Buckets of one size\<close>

lemma bucket_even:
  assumes "length xs = number_bins * k" and "0 < number_bins"
  shows "bucket number_bins i xs = take k (drop (i * k) xs)"
proof -
  have e1: "i * length xs = number_bins * (i * k)"
    and e2: "(i + 1) * length xs = number_bins * (i * k + k)"
    using assms(1) by (simp_all add: algebra_simps)
  have "i * length xs div number_bins = i * k"
    unfolding e1 using assms(2) by simp
  moreover have "(i + 1) * length xs div number_bins = i * k + k"
    unfolding e2 using assms(2) by simp
  ultimately show ?thesis
    by (simp add: bucket_def)
qed

lemma buckets_even:
  assumes "length xs = number_bins * k" and "0 < number_bins"
  shows "buckets number_bins xs = map (\<lambda>i. take k (drop (i * k) xs)) [0..<number_bins]"
  by (simp add: buckets_def bucket_even [OF assms])

lemma concat_slices:
  "concat (map (\<lambda>i. take k (drop (i * k) xs)) [0..<m]) = take (m * k) xs"
proof (induction m)
  case 0
  show ?case by simp
next
  case (Suc m)
  have "take (m * k + k) xs = take (m * k) xs @ take k (drop (m * k) xs)"
    by (rule take_add)
  with Suc show ?case by (simp add: add.commute)
qed

lemma length_slice:
  assumes "length xs = m * k" and "i < m"
  shows "length (take k (drop (i * k) xs)) = k"
proof -
  have "Suc i * k \<le> m * k"
    using assms(2) by (intro mult_le_mono1) simp
  then show ?thesis
    using assms(1) by simp
qed

lemma map_constant:
  "(\<And>i. i < n \<Longrightarrow> f i = c) \<Longrightarrow> map f [0..<n] = replicate n c"
  by (induction n) (simp_all add: replicate_append_same)

subsection \<open>Means of buckets in descending order\<close>

lemma sum_list_lower:
  "(\<And>x. x \<in> set xs \<Longrightarrow> c \<le> x) \<Longrightarrow> c * real (length xs) \<le> sum_list xs"
  by (induction xs) (auto simp add: algebra_simps intro: add_mono)

lemma sum_list_upper:
  "(\<And>x. x \<in> set xs \<Longrightarrow> x \<le> c) \<Longrightarrow> sum_list xs \<le> c * real (length xs)"
  by (induction xs) (auto simp add: algebra_simps intro: add_mono)

lemma mean_lower:
  assumes "xs \<noteq> []" and "\<And>x. x \<in> set xs \<Longrightarrow> c \<le> x"
  shows "c \<le> mean xs"
proof -
  have "0 < real (length xs)"
    using assms(1) by simp
  then show ?thesis
    using sum_list_lower [of xs c] assms(2) by (simp add: mean_def pos_le_divide_eq)
qed

lemma mean_upper:
  assumes "xs \<noteq> []" and "\<And>x. x \<in> set xs \<Longrightarrow> x \<le> c"
  shows "mean xs \<le> c"
proof -
  have "0 < real (length xs)"
    using assms(1) by simp
  then show ?thesis
    using sum_list_upper [of xs c] assms(2) by (simp add: mean_def pos_divide_le_eq)
qed

lemma mean_mono:
  assumes "as \<noteq> []" and "bs \<noteq> []"
    and "\<And>a b. a \<in> set as \<Longrightarrow> b \<in> set bs \<Longrightarrow> b \<le> a"
  shows "mean bs \<le> mean as"
proof (rule mean_lower [OF assms(1)])
  fix a
  assume "a \<in> set as"
  then show "mean bs \<le> a"
    using assms(3) by (intro mean_upper [OF assms(2)]) simp
qed

lemma slices_apart:
  assumes d: "sorted_wrt (\<lambda>a b. fst b \<le> fst a) xs"
    and ij: "i < j"
    and a: "a \<in> set (take k (drop (i * k) xs))"
    and b: "b \<in> set (take k (drop (j * k) xs))"
  shows "fst b \<le> fst a"
proof -
  have "Suc i * k \<le> j * k"
    using ij by (intro mult_le_mono1) simp
  then have le: "i * k + k \<le> j * k"
    by (simp add: add.commute)
  have "take (i * k + k) xs = take (i * k) xs @ take k (drop (i * k) xs)"
    by (rule take_add)
  then have "a \<in> set (take (i * k + k) xs)"
    using a by simp
  then have a': "a \<in> set (take (j * k) xs)"
    using set_take_subset_set_take [OF le, of xs] by blast
  have b': "b \<in> set (drop (j * k) xs)"
    using b by (rule in_set_takeD)
  have "sorted_wrt (\<lambda>a b. fst b \<le> fst a) (take (j * k) xs @ drop (j * k) xs)"
    using d by simp
  then show ?thesis
    using a' b' unfolding sorted_wrt_append by blast
qed

lemma slice_means_descending:
  assumes d: "sorted_wrt (\<lambda>a b. fst b \<le> fst a) xs"
    and l: "length xs = m * k" and k: "0 < k"
  shows "sorted_wrt (\<lambda>a b. b \<le> a)
           (map (\<lambda>i. mean (map fst (take k (drop (i * k) xs)))) [0..<m])"
proof -
  have "mean (map fst (take k (drop (j * k) xs))) \<le> mean (map fst (take k (drop (i * k) xs)))"
    if "i < j" and "j < m" for i j
  proof (rule mean_mono)
    have "length (take k (drop (i * k) xs)) = k"
      using l that by (intro length_slice [where m = m]) simp_all
    then show "map fst (take k (drop (i * k) xs)) \<noteq> []"
      using k by auto
    have "length (take k (drop (j * k) xs)) = k"
      using l that by (intro length_slice [where m = m]) simp_all
    then show "map fst (take k (drop (j * k) xs)) \<noteq> []"
      using k by auto
    fix a b
    assume "a \<in> set (map fst (take k (drop (i * k) xs)))"
      and "b \<in> set (map fst (take k (drop (j * k) xs)))"
    then show "b \<le> a"
      using slices_apart [OF d that(1)] by auto
  qed
  then show ?thesis
    by (simp add: sorted_wrt_iff_nth_less)
qed

lemma sorted_descending:
  "sorted_wrt (\<lambda>a b. fst b \<le> fst a) (sort_by_predicted_descending pairs)"
proof -
  have "sorted (map fst (sort_key fst pairs))"
    by (rule sorted_sort_key)
  then have "sorted_wrt (\<lambda>a b. fst a \<le> fst b) (sort_key fst pairs)"
    by (simp add: sorted_wrt_map)
  then show ?thesis
    by (simp add: sort_by_predicted_descending_def sorted_wrt_rev)
qed

lemma sort_by_predicted_descending_length [simp]:
  "length (sort_by_predicted_descending pairs) = length pairs"
  by (simp add: sort_by_predicted_descending_def)

lemma sort_by_predicted_descending_mset [simp]:
  "mset (sort_by_predicted_descending pairs) = mset pairs"
  by (simp add: sort_by_predicted_descending_def)

subsection \<open>Decile evaluation\<close>

text \<open>
  Claim C6. With the evaluator as section 4.4 of the specification describes it, given
  pairs of which 100 are matched (the actual value is present) and \<open>number_bins = 10\<close>:
  the output has 10 rows; the 10 buckets hold 10 pairs each; put end to end they are the
  matched pairs sorted by descending predicted value, every matched pair once; and the
  rows are in descending order of their mean predicted value, which is the mean of the
  predicted values of the row's bucket. And \<open>evaluate_model\<close>, called without
  \<open>number_bins\<close>, asks the evaluator for 10 bins (line 397).
\<close>

theorem decile_evaluation:
  "(length (matched_pairs pairs) = 100 \<longrightarrow>
      length (evaluate_model_predictions_spec 10 pairs) = 10
    \<and> map length (evaluation_buckets 10 pairs) = replicate 10 10
    \<and> concat (evaluation_buckets 10 pairs) = sort_by_predicted_descending (matched_pairs pairs)
    \<and> mset (concat (evaluation_buckets 10 pairs)) = mset (matched_pairs pairs)
    \<and> sorted_wrt (\<lambda>a b. b \<le> a)
         (map fst (sort_by_predicted_descending (matched_pairs pairs)))
    \<and> map mean_predicted (evaluate_model_predictions_spec 10 pairs)
         = map (\<lambda>b. mean (map fst b)) (evaluation_buckets 10 pairs)
    \<and> sorted_wrt (\<lambda>a b. b \<le> a)
         (map mean_predicted (evaluate_model_predictions_spec 10 pairs)))
   \<and> requests_made s (snd (evaluate_model env endpoint_id_arg table_evaluation_stats None s))
       = [EvaluateModelPredictions (bigquery_client (self s)) (dataset_id (self s))
            (if falsy endpoint_id_arg then endpoint_id (self s) else endpoint_id_arg)
            (model_id (self s)) (supplied_or ''crystalvalue_evaluation'' table_evaluation_stats)
            (location (self s)) 10]"
proof (intro conjI impI)
  show "requests_made s (snd (evaluate_model env endpoint_id_arg table_evaluation_stats None s))
       = [EvaluateModelPredictions (bigquery_client (self s)) (dataset_id (self s))
            (if falsy endpoint_id_arg then endpoint_id (self s) else endpoint_id_arg)
            (model_id (self s)) (supplied_or ''crystalvalue_evaluation'' table_evaluation_stats)
            (location (self s)) 10]"
    by (simp add: evaluate_model_def requests_made_def call_eq Let_def supplied_or_def
             split: prod.splits sum.splits)
next
  assume h: "length (matched_pairs pairs) = 100"
  define xs where "xs = sort_by_predicted_descending (matched_pairs pairs)"
  have l: "length xs = 10 * 10"
    using h by (simp add: xs_def)
  have bs: "evaluation_buckets 10 pairs = map (\<lambda>i. take 10 (drop (i * 10) xs)) [0..<10]"
    unfolding evaluation_buckets_def xs_def [symmetric]
    by (rule buckets_even [OF l]) simp
  have d: "sorted_wrt (\<lambda>a b. fst b \<le> fst a) xs"
    unfolding xs_def by (rule sorted_descending)
  show "length (evaluate_model_predictions_spec 10 pairs) = 10"
    by (simp add: evaluate_model_predictions_spec_def bs)
  have "map (\<lambda>i. length (take 10 (drop (i * 10) xs))) [0..<10] = replicate 10 10"
    by (rule map_constant) (rule length_slice [OF l])
  then show "map length (evaluation_buckets 10 pairs) = replicate 10 10"
    by (simp add: bs comp_def)
  have c: "concat (evaluation_buckets 10 pairs) = xs"
    using l by (simp add: bs concat_slices)
  then show "concat (evaluation_buckets 10 pairs)
               = sort_by_predicted_descending (matched_pairs pairs)"
    by (simp add: xs_def)
  show "mset (concat (evaluation_buckets 10 pairs)) = mset (matched_pairs pairs)"
    by (simp add: c xs_def)
  show "sorted_wrt (\<lambda>a b. b \<le> a) (map fst (sort_by_predicted_descending (matched_pairs pairs)))"
    using d by (simp add: xs_def sorted_wrt_map)
  show m: "map mean_predicted (evaluate_model_predictions_spec 10 pairs)
         = map (\<lambda>b. mean (map fst b)) (evaluation_buckets 10 pairs)"
    by (simp add: evaluate_model_predictions_spec_def bucket_row_def comp_def)
  have "sorted_wrt (\<lambda>a b. b \<le> a)
           (map (\<lambda>i. mean (map fst (take 10 (drop (i * 10) xs)))) [0..<10])"
    by (rule slice_means_descending [OF d l]) simp
  then show "sorted_wrt (\<lambda>a b. b \<le> a)
         (map mean_predicted (evaluate_model_predictions_spec 10 pairs))"
    by (simp add: m bs comp_def)
qed

lemma matched_pairs_length:
  "length (matched_pairs pairs) = length (filter (\<lambda>p. snd p \<noteq> None) pairs)"
  unfolding matched_pairs_def
  by (induction pairs) (auto split: option.splits)

lemma holdout_matched: "length (matched_pairs holdout) = 100"
  unfolding matched_pairs_length holdout_def by code_simp

theorem decile_evaluation_witness:
  "length (matched_pairs holdout) = 100
   \<and> length holdout = 105
   \<and> length (evaluate_model_predictions_spec 10 holdout) = 10
   \<and> map length (evaluation_buckets 10 holdout) = replicate 10 10
   \<and> mset (concat (evaluation_buckets 10 holdout)) = mset (matched_pairs holdout)
   \<and> sorted_wrt (\<lambda>a b. b \<le> a) (map mean_predicted (evaluate_model_predictions_spec 10 holdout))"
proof -
  have h: "length (matched_pairs holdout) = 100"
    by (rule holdout_matched)
  have n: "length holdout = 105"
    by (simp add: holdout_def)
  note all = decile_evaluation [where pairs = holdout, THEN conjunct1, THEN mp, OF h]
  note a = all [THEN conjunct1]
  note b = all [THEN conjunct2, THEN conjunct1]
  note c = all [THEN conjunct2, THEN conjunct2, THEN conjunct2, THEN conjunct1]
  note d = all [THEN conjunct2, THEN conjunct2, THEN conjunct2, THEN conjunct2, THEN conjunct2,
      THEN conjunct2]
  show ?thesis
    using h n a b c d by (simp only: simp_thms)
qed

end
